theory Spec2Isabelle
  imports Complex_Main
begin

section \<open>Cleaning-machine monitoring: yards, machines and the update engine\<close>

text \<open>
  The Python sources embedded here are \<^verbatim>\<open>src/models/yard.py\<close>,
  \<^verbatim>\<open>src/models/machine.py\<close>, \<^verbatim>\<open>src/services/cleaning_service.py\<close> and the batch
  path of \<^verbatim>\<open>main.py\<close>.

  Modelling conventions.
  \<^item> Python \<^verbatim>\<open>float\<close> values (areas, rates, seconds, coordinates) are real numbers;
    rounding of IEEE doubles is outside the model.
  \<^item> A \<^verbatim>\<open>datetime\<close> is either naive or timezone-aware and carries a real number of
    seconds; subtracting a naive from an aware one (or the reverse) raises
    \<^verbatim>\<open>TypeError\<close>, as in Python.
  \<^item> Objects mutated in place become records that are passed in and returned.
  \<^item> Dictionaries keyed by integer ids are maps \<open>int \<rightharpoonup> 'v\<close>.
  \<^item> A \<^verbatim>\<open>raise ValueError\<close> of a constructor is the value \<open>Inl ValueError\<close>; a
    method that can raise after it has mutated its object returns the object as it is at
    that point together with \<open>Inl\<close> of the error.
  \<^item> Calls to the logger have no effect on the modelled state and are left out.
\<close>

datatype error = ValueError | TypeError

subsection \<open>yard.py: YardStatus\<close>

datatype YardStatus =
  PERCENT_0 | PERCENT_20 | PERCENT_40 | PERCENT_60 | PERCENT_80 | PERCENT_100

text \<open>The \<^verbatim>\<open>.value\<close> of an enum member.\<close>

fun status_value :: "YardStatus \<Rightarrow> int" where
  "status_value PERCENT_0 = 0"
| "status_value PERCENT_20 = 20"
| "status_value PERCENT_40 = 40"
| "status_value PERCENT_60 = 60"
| "status_value PERCENT_80 = 80"
| "status_value PERCENT_100 = 100"

definition get_status_by_percentage :: "real \<Rightarrow> YardStatus" where
  "get_status_by_percentage percentage =
     (if percentage \<ge> 100 then PERCENT_100
      else if percentage \<ge> 80 then PERCENT_80
      else if percentage \<ge> 60 then PERCENT_60
      else if percentage \<ge> 40 then PERCENT_40
      else if percentage \<ge> 20 then PERCENT_20
      else PERCENT_0)"

subsection \<open>yard.py: Yard\<close>

record Yard =
  yard_id :: int
  area :: real
  cleaning_speed :: real
  status :: YardStatus
  cleaned_area :: real
  total_work_time :: real
  status_history :: "YardStatus list"

text \<open>\<^verbatim>\<open>Yard.__init__\<close>: three guarded raises, then the initial cleaning state.\<close>

definition Yard_init :: "int \<Rightarrow> real \<Rightarrow> real \<Rightarrow> error + Yard" where
  "Yard_init yid a speed =
     (if yid \<le> 0 then Inl ValueError
      else if a \<le> 0 then Inl ValueError
      else if speed \<le> 0 then Inl ValueError
      else Inr \<lparr>yard_id = yid, area = a, cleaning_speed = speed,
                status = PERCENT_0, cleaned_area = 0, total_work_time = 0,
                status_history = [PERCENT_0]\<rparr>)"

definition get_completion_percentage :: "Yard \<Rightarrow> real" where
  "get_completion_percentage self =
     (if area self \<le> 0 then 0
      else min ((cleaned_area self / area self) * 100) 100)"

text \<open>
  \<^verbatim>\<open>Yard.add_work_time\<close>: returns the updated yard together with the method's return
  value (the new status when it changed, otherwise \<^verbatim>\<open>None\<close>).
\<close>

definition add_work_time :: "Yard \<Rightarrow> real \<Rightarrow> Yard \<times> YardStatus option" where
  "add_work_time self work_time =
     (if work_time \<le> 0 then (self, None)
      else
        let self1 = self\<lparr>total_work_time := total_work_time self + work_time\<rparr>;
            cleaned_by_this_work = work_time * cleaning_speed self1;
            self2 = self1\<lparr>cleaned_area := cleaned_area self1 + cleaned_by_this_work\<rparr>;
            self3 = (if cleaned_area self2 > area self2
                     then self2\<lparr>cleaned_area := area self2\<rparr> else self2);
            percentage = get_completion_percentage self3;
            new_status = get_status_by_percentage percentage
        in if new_status \<noteq> status self3
           then (self3\<lparr>status := new_status,
                        status_history := status_history self3 @ [new_status]\<rparr>,
                 Some new_status)
           else (self3, None))"

text \<open>
  A sequence of \<^verbatim>\<open>add_work_time\<close> calls on one yard: for each call, in call order, the
  yard after the call and the value the call returned.
\<close>

fun add_work_times :: "Yard \<Rightarrow> real list \<Rightarrow> (Yard \<times> YardStatus option) list" where
  "add_work_times self [] = []"
| "add_work_times self (w # ws) =
     (let r = add_work_time self w
      in r # add_work_times (fst r) ws)"

subsection \<open>Timestamps\<close>

text \<open>
  \<^verbatim>\<open>datetime.fromisoformat\<close> returns a naive datetime for a string without a UTC offset
  and an aware one for a string with an offset. The number is the seconds of the
  wall-clock value for a naive datetime and the seconds of the instant in UTC for an aware
  one.
\<close>

datatype datetime = Naive real | Aware real

text \<open>
  \<^verbatim>\<open>(end_time - start_time).total_seconds()\<close>: the difference for two datetimes of the
  same kind, \<^verbatim>\<open>TypeError\<close> for a naive and an aware one.
\<close>

fun datetime_sub :: "datetime \<Rightarrow> datetime \<Rightarrow> error + real" where
  "datetime_sub (Naive e) (Naive s) = Inr (e - s)"
| "datetime_sub (Aware e) (Aware s) = Inr (e - s)"
| "datetime_sub (Naive e) (Aware s) = Inl TypeError"
| "datetime_sub (Aware e) (Naive s) = Inl TypeError"

subsection \<open>machine.py: MachineMessage and Machine\<close>

record MachineMessage =
  msg_machine_id :: int
  msg_timestamp :: datetime
  msg_coordinates :: "real \<times> real"
  msg_yard_id :: "int option"

text \<open>
  The dataclass constructor with \<^verbatim>\<open>__post_init__\<close>. The coordinates are a pair, so the
  length check of the source always passes.
\<close>

definition MachineMessage_init ::
  "int \<Rightarrow> datetime \<Rightarrow> real \<times> real \<Rightarrow> int option \<Rightarrow> error + MachineMessage" where
  "MachineMessage_init mid ts coords yid =
     (if mid \<le> 0 then Inl ValueError
      else if yid \<noteq> None \<and> the yid \<le> 0 then Inl ValueError
      else Inr \<lparr>msg_machine_id = mid, msg_timestamp = ts,
                msg_coordinates = coords, msg_yard_id = yid\<rparr>)"

record Machine =
  machine_id :: int
  current_coordinates :: "real \<times> real"
  last_update :: "datetime option"
  current_yard_id :: "int option"
  previous_yard_id :: "int option"
  yard_work_history :: "int \<rightharpoonup> real"
  yard_entry_time :: "datetime option"

definition Machine_init :: "int \<Rightarrow> error + Machine" where
  "Machine_init mid =
     (if mid \<le> 0 then Inl ValueError
      else Inr \<lparr>machine_id = mid, current_coordinates = (0, 0),
                last_update = None, current_yard_id = None,
                previous_yard_id = None, yard_work_history = Map.empty,
                yard_entry_time = None\<rparr>)"

text \<open>
  \<^verbatim>\<open>Machine._calculate_work_time\<close>. The subtraction is the only statement that can
  raise.
\<close>

definition calculate_work_time :: "datetime option \<Rightarrow> datetime option \<Rightarrow> error + real" where
  "calculate_work_time start_time end_time =
     (case (start_time, end_time) of
        (Some s, Some e) \<Rightarrow>
          (case datetime_sub e s of
             Inl err \<Rightarrow> Inl err
           | Inr seconds \<Rightarrow>
               if seconds < 0 \<or> seconds > 3600 then Inr 0 else Inr seconds)
      | _ \<Rightarrow> Inr 0)"

text \<open>\<^verbatim>\<open>Machine._add_work_time\<close>: create the key with 0.0 when missing, then add.\<close>

definition machine_add_work_time :: "Machine \<Rightarrow> int \<Rightarrow> real \<Rightarrow> Machine" where
  "machine_add_work_time self yid work_time =
     (let h = (if yard_work_history self yid = None
               then (yard_work_history self)(yid \<mapsto> 0)
               else yard_work_history self)
      in self\<lparr>yard_work_history := h(yid \<mapsto> the (h yid) + work_time)\<rparr>)"

text \<open>The dictionary \<^verbatim>\<open>changes\<close> that \<^verbatim>\<open>update_position\<close> returns.\<close>

record changes =
  position_changed :: bool
  yard_changed :: bool
  entered_yard :: "int option"
  left_yard :: "int option"
  work_time_added :: real

definition changes_init :: changes where
  "changes_init = \<lparr>position_changed = False, yard_changed = False,
                   entered_yard = None, left_yard = None, work_time_added = 0\<rparr>"

text \<open>
  \<^verbatim>\<open>Machine.update_position\<close>, statement by statement. The result is the machine
  after the call and either the returned \<^verbatim>\<open>changes\<close> or the error raised. The only
  statement that can raise is the call of \<^verbatim>\<open>_calculate_work_time\<close>; at that point the
  coordinates have been written and nothing else has.
\<close>

definition update_position :: "Machine \<Rightarrow> MachineMessage \<Rightarrow> Machine \<times> (error + changes)" where
  "update_position self message =
     (let old_coordinates = current_coordinates self;
          self1 = self\<lparr>current_coordinates := msg_coordinates message\<rparr>;
          ch1 = (if old_coordinates \<noteq> msg_coordinates message
                 then changes_init\<lparr>position_changed := True\<rparr> else changes_init)
      in if current_yard_id self1 \<noteq> msg_yard_id message then
           (let ch2 = ch1\<lparr>yard_changed := True\<rparr>
            in case (if current_yard_id self1 \<noteq> None \<and> yard_entry_time self1 \<noteq> None then
                       (case calculate_work_time (last_update self1)
                               (Some (msg_timestamp message)) of
                          Inl e \<Rightarrow> Inl e
                        | Inr work_time \<Rightarrow>
                            if work_time > 0
                            then Inr (machine_add_work_time self1
                                        (the (current_yard_id self1)) work_time,
                                      ch2\<lparr>work_time_added := work_time,
                                           left_yard := current_yard_id self1\<rparr>)
                            else Inr (self1, ch2))
                     else Inr (self1, ch2)) of
                 Inl e \<Rightarrow> (self1, Inl e)
               | Inr (self2, ch3) \<Rightarrow>
                   (let self3 = self2\<lparr>previous_yard_id := current_yard_id self2\<rparr>;
                        self4 = self3\<lparr>current_yard_id := msg_yard_id message\<rparr>;
                        (self5, ch4) =
                          (if msg_yard_id message \<noteq> None
                           then (self4\<lparr>yard_entry_time := Some (msg_timestamp message)\<rparr>,
                                 ch3\<lparr>entered_yard := msg_yard_id message\<rparr>)
                           else (self4\<lparr>yard_entry_time := None\<rparr>, ch3))
                    in (self5\<lparr>last_update := Some (msg_timestamp message)\<rparr>, Inr ch4)))
         else if current_yard_id self1 \<noteq> None \<and> last_update self1 \<noteq> None
                 \<and> yard_entry_time self1 \<noteq> None then
           (case calculate_work_time (last_update self1) (Some (msg_timestamp message)) of
              Inl e \<Rightarrow> (self1, Inl e)
            | Inr work_time \<Rightarrow>
                (let (self2, ch2) =
                       (if work_time > 0
                        then (machine_add_work_time self1
                                (the (current_yard_id self1)) work_time,
                              ch1\<lparr>work_time_added := work_time\<rparr>)
                        else (self1, ch1))
                 in (self2\<lparr>last_update := Some (msg_timestamp message)\<rparr>, Inr ch2)))
         else (self1\<lparr>last_update := Some (msg_timestamp message)\<rparr>, Inr ch1))"

text \<open>
  A sequence of \<^verbatim>\<open>update_position\<close> calls on one machine object, the caller going on
  to the next report when a call raises; the result is the list of machine states after
  each call, in call order.
\<close>

fun update_positions :: "Machine \<Rightarrow> MachineMessage list \<Rightarrow> Machine list" where
  "update_positions self [] = []"
| "update_positions self (msg # msgs) =
     (let self1 = fst (update_position self msg)
      in self1 # update_positions self1 msgs)"

subsection \<open>cleaning_service.py: CleaningService\<close>

text \<open>The status-change dictionary built by the service (a transition event).\<close>

record status_change =
  ev_yard_id :: int
  old_status :: YardStatus
  new_status :: YardStatus
  ev_timestamp :: datetime
  ev_machine_id :: int
  ev_work_time_added :: real

record CleaningService =
  message_count :: nat
  error_count :: nat

definition CleaningService_init :: CleaningService where
  "CleaningService_init = \<lparr>message_count = 0, error_count = 0\<rparr>"

text \<open>
  \<^verbatim>\<open>CleaningService._handle_yard_change\<close>. The machine is only read; the yard
  dictionary is returned updated, with the method's return value. An enum member is
  always true in Python, so \<^verbatim>\<open>if new_status:\<close> tests for \<^verbatim>\<open>None\<close>.
\<close>

definition handle_yard_change ::
  "Machine \<Rightarrow> changes \<Rightarrow> (int \<rightharpoonup> Yard) \<Rightarrow> datetime
     \<Rightarrow> (int \<rightharpoonup> Yard) \<times> status_change option" where
  "handle_yard_change machine ch yards timestamp =
     (case left_yard ch of
        Some left_yard_id \<Rightarrow>
          (let work_time = work_time_added ch
           in case yards left_yard_id of
                Some yard \<Rightarrow>
                  if work_time > 0 then
                    (let old = status yard;
                         (yard1, new) = add_work_time yard work_time;
                         yards1 = yards(left_yard_id \<mapsto> yard1)
                     in case new of
                          Some n \<Rightarrow>
                            (yards1,
                             Some \<lparr>ev_yard_id = yard_id yard1, old_status = old,
                                   new_status = n, ev_timestamp = timestamp,
                                   ev_machine_id = machine_id machine,
                                   ev_work_time_added = work_time\<rparr>)
                        | None \<Rightarrow> (yards1, None))
                  else (yards, None)
              | None \<Rightarrow> (yards, None))
      | None \<Rightarrow> (yards, None))"

text \<open>
  \<^verbatim>\<open>CleaningService.process_machine_update\<close>. The message counter is incremented
  before the \<^verbatim>\<open>try\<close> block. When \<^verbatim>\<open>update_position\<close> raises, the \<^verbatim>\<open>except\<close>
  branch counts an error and returns \<^verbatim>\<open>None\<close>; the machine object keeps what the call
  had written and the yards are untouched. The dictionary reads of the block are guarded
  by \<^verbatim>\<open>in\<close>, so nothing else in it raises.
\<close>

definition process_machine_update ::
  "CleaningService \<Rightarrow> Machine \<Rightarrow> MachineMessage \<Rightarrow> (int \<rightharpoonup> Yard)
     \<Rightarrow> CleaningService \<times> Machine \<times> (int \<rightharpoonup> Yard) \<times> status_change option" where
  "process_machine_update self machine message yards =
     (let self1 = self\<lparr>message_count := message_count self + 1\<rparr>
      in case update_position machine message of
           (machine1, Inl e) \<Rightarrow>
             (self1\<lparr>error_count := error_count self1 + 1\<rparr>, machine1, yards, None)
         | (machine1, Inr ch) \<Rightarrow>
             if yard_changed ch then
               (let (yards1, sc) = handle_yard_change machine1 ch yards (msg_timestamp message)
                in (self1, machine1, yards1, sc))
             else if work_time_added ch > 0 \<and> current_yard_id machine1 \<noteq> None
                     \<and> yards (the (current_yard_id machine1)) \<noteq> None then
               (let k = the (current_yard_id machine1);
                    yard = the (yards k);
                    old = status yard;
                    (yard1, new) = add_work_time yard (work_time_added ch);
                    yards1 = yards(k \<mapsto> yard1)
                in case new of
                     Some n \<Rightarrow>
                       (self1, machine1, yards1,
                        Some \<lparr>ev_yard_id = yard_id yard1, old_status = old,
                              new_status = n, ev_timestamp = msg_timestamp message,
                              ev_machine_id = machine_id machine1,
                              ev_work_time_added = work_time_added ch\<rparr>)
                   | None \<Rightarrow> (self1, machine1, yards1, None))
             else (self1, machine1, yards, None))"

subsection \<open>main.py: CleaningMonitoringSystem, batch path\<close>

record CleaningMonitoringSystem =
  cleaning_service :: CleaningService
  machines :: "int \<rightharpoonup> Machine"
  yards :: "int \<rightharpoonup> Yard"
  status_changes :: "status_change list"
  processed_messages :: nat

definition CleaningMonitoringSystem_init :: CleaningMonitoringSystem where
  "CleaningMonitoringSystem_init =
     \<lparr>cleaning_service = CleaningService_init, machines = Map.empty,
      yards = Map.empty, status_changes = [], processed_messages = 0\<rparr>"

text \<open>
  The loop of \<^verbatim>\<open>load_yard_directory\<close> over the records the file handler returned,
  each a triple (yard id, area, cleaning speed). A constructor that raises ends the
  loop with \<^verbatim>\<open>False\<close>; the yards stored before it stay.
\<close>

fun load_yard_directory ::
  "CleaningMonitoringSystem \<Rightarrow> (int \<times> real \<times> real) list \<Rightarrow> CleaningMonitoringSystem \<times> bool" where
  "load_yard_directory self [] = (self, True)"
| "load_yard_directory self ((yid, a, speed) # yard_data) =
     (case Yard_init yid a speed of
        Inl e \<Rightarrow> (self, False)
      | Inr yard \<Rightarrow>
          load_yard_directory (self\<lparr>yards := (yards self)(yard_id yard \<mapsto> yard)\<rparr>) yard_data)"

text \<open>
  A loaded message dictionary. The field \<open>data_timestamp\<close> is what
  \<^verbatim>\<open>datetime.fromisoformat\<close> makes of the timestamp string: \<open>None\<close> when it raises
  \<^verbatim>\<open>ValueError\<close>, otherwise the datetime.
\<close>

record message_data =
  data_machine_id :: int
  data_timestamp :: "datetime option"
  data_x :: real
  data_y :: real
  data_yard_id :: "int option"

text \<open>
  \<^verbatim>\<open>_process_single_message\<close>: the system after the call and the returned flag. An
  error raised while the message object or a new machine is built is caught here and gives
  \<^verbatim>\<open>False\<close>; an error inside \<^verbatim>\<open>process_machine_update\<close> is caught there, so the
  flag is \<^verbatim>\<open>True\<close>.
\<close>

definition process_single_message ::
  "CleaningMonitoringSystem \<Rightarrow> message_data \<Rightarrow> CleaningMonitoringSystem \<times> bool" where
  "process_single_message self md =
     (case data_timestamp md of
        None \<Rightarrow> (self, False)
      | Some ts \<Rightarrow>
          (case MachineMessage_init (data_machine_id md) ts
                  (data_x md, data_y md) (data_yard_id md) of
             Inl e \<Rightarrow> (self, False)
           | Inr message \<Rightarrow>
               (case (case machines self (msg_machine_id message) of
                        Some m \<Rightarrow> Inr m
                      | None \<Rightarrow> Machine_init (msg_machine_id message)) of
                  Inl e \<Rightarrow> (self, False)
                | Inr machine \<Rightarrow>
                    (let (svc, machine1, yards1, sc) =
                           process_machine_update (cleaning_service self) machine message
                             (yards self);
                         self1 = self\<lparr>cleaning_service := svc,
                                     machines := (machines self)
                                       (msg_machine_id message \<mapsto> machine1),
                                     yards := yards1\<rparr>
                     in case sc of
                          Some ev \<Rightarrow>
                            (self1\<lparr>status_changes := status_changes self1 @ [ev]\<rparr>, True)
                        | None \<Rightarrow> (self1, True)))))"

text \<open>
  \<^verbatim>\<open>_process_messages_batch\<close>: every message in input order; the count of processed
  messages is only logged, and the method returns \<^verbatim>\<open>True\<close>.
\<close>

fun process_messages_loop ::
  "CleaningMonitoringSystem \<Rightarrow> message_data list \<Rightarrow> CleaningMonitoringSystem" where
  "process_messages_loop self [] = self"
| "process_messages_loop self (md # messages) =
     process_messages_loop (fst (process_single_message self md)) messages"

definition process_messages_batch ::
  "CleaningMonitoringSystem \<Rightarrow> message_data list \<Rightarrow> CleaningMonitoringSystem \<times> bool" where
  "process_messages_batch self messages = (process_messages_loop self messages, True)"

section \<open>Properties\<close>

subsection \<open>State predicates used by the statements\<close>

text \<open>The entry time is recorded exactly when the machine is in a yard.\<close>

definition entry_time_consistent :: "Machine \<Rightarrow> bool" where
  "entry_time_consistent m = ((yard_entry_time m \<noteq> None) = (current_yard_id m \<noteq> None))"

text \<open>Every accumulated dwell value of the machine is non-negative.\<close>

definition dwell_nonneg :: "Machine \<Rightarrow> bool" where
  "dwell_nonneg m = (\<forall>k v. yard_work_history m k = Some v \<longrightarrow> 0 \<le> v)"

text \<open>No dwell value of \<open>m\<close> is lost or lowered in \<open>m'\<close>.\<close>

definition dwell_le :: "Machine \<Rightarrow> Machine \<Rightarrow> bool" where
  "dwell_le m m' = (\<forall>k v. yard_work_history m k = Some v \<longrightarrow>
                      (\<exists>v'. yard_work_history m' k = Some v' \<and> v \<le> v'))"

text \<open>
  The yard invariant: positive area and rate, cleaned area within the area, the stored
  status equal to the band of the completion percentage, and a history that starts at
  band 0, increases strictly and ends at the stored status.
\<close>

definition yard_invariant :: "Yard \<Rightarrow> bool" where
  "yard_invariant y =
     (0 < area y \<and> 0 < cleaning_speed y
      \<and> 0 \<le> cleaned_area y \<and> cleaned_area y \<le> area y
      \<and> status y = get_status_by_percentage (get_completion_percentage y)
      \<and> status_history y \<noteq> []
      \<and> hd (status_history y) = PERCENT_0
      \<and> last (status_history y) = status y
      \<and> sorted_wrt (<) (map status_value (status_history y)))"

text \<open>
  The yards before and after each call of a sequence (entry \<open>i\<close> is the yard before call
  \<open>i\<close>, entry \<open>Suc i\<close> the yard after it), and the values the calls returned.
\<close>

abbreviation yard_states :: "Yard \<Rightarrow> real list \<Rightarrow> Yard list" where
  "yard_states y ws \<equiv> y # map fst (add_work_times y ws)"

abbreviation yard_returns :: "Yard \<Rightarrow> real list \<Rightarrow> YardStatus option list" where
  "yard_returns y ws \<equiv> map snd (add_work_times y ws)"

text \<open>The number of calls, among the given return values, that reported a band change.\<close>

definition transitions :: "YardStatus option list \<Rightarrow> nat" where
  "transitions rs = length (filter (\<lambda>r. r \<noteq> None) rs)"

text \<open>
  The guard under which \<open>update_position\<close> computes a work time: the machine has a
  current yard and an entry time.
\<close>

definition in_yard :: "Machine \<Rightarrow> bool" where
  "in_yard m = (current_yard_id m \<noteq> None \<and> yard_entry_time m \<noteq> None)"

text \<open>
  The machine and the \<^verbatim>\<open>changes\<close> after a report that credits \<open>w\<close> seconds, each as one
  expression over the machine before the report. They are proved below to be what
  \<open>update_position\<close> returns whenever it returns.
\<close>

definition machine_after :: "Machine \<Rightarrow> MachineMessage \<Rightarrow> real \<Rightarrow> Machine" where
  "machine_after m msg w =
     m\<lparr>current_coordinates := msg_coordinates msg,
       last_update := Some (msg_timestamp msg),
       current_yard_id := msg_yard_id msg,
       previous_yard_id :=
         (if current_yard_id m \<noteq> msg_yard_id msg then current_yard_id m
          else previous_yard_id m),
       yard_work_history :=
         (if w > 0
          then (yard_work_history m)(the (current_yard_id m) \<mapsto>
                  (case yard_work_history m (the (current_yard_id m)) of
                     None \<Rightarrow> 0 | Some v \<Rightarrow> v) + w)
          else yard_work_history m),
       yard_entry_time :=
         (if current_yard_id m \<noteq> msg_yard_id msg
          then (if msg_yard_id msg \<noteq> None then Some (msg_timestamp msg) else None)
          else yard_entry_time m)\<rparr>"

definition changes_of :: "Machine \<Rightarrow> MachineMessage \<Rightarrow> real \<Rightarrow> changes" where
  "changes_of m msg w =
     \<lparr>position_changed = (current_coordinates m \<noteq> msg_coordinates msg),
      yard_changed = (current_yard_id m \<noteq> msg_yard_id msg),
      entered_yard =
        (if current_yard_id m \<noteq> msg_yard_id msg then msg_yard_id msg else None),
      left_yard =
        (if current_yard_id m \<noteq> msg_yard_id msg \<and> w > 0 then current_yard_id m else None),
      work_time_added = w\<rparr>"

text \<open>
  The effect on the yard dictionary, and the event, of a report that credits \<open>w\<close> seconds
  to a machine that was in state \<open>m\<close> before the report: the yard the machine was in, if
  the directory has it and \<open>w\<close> is positive, accrues \<open>w\<close>. It is proved below to be what
  \<open>process_machine_update\<close> computes on both of its branches when \<open>update_position\<close>
  returns.
\<close>

definition yard_accrual ::
  "Machine \<Rightarrow> MachineMessage \<Rightarrow> real \<Rightarrow> (int \<rightharpoonup> Yard)
     \<Rightarrow> (int \<rightharpoonup> Yard) \<times> status_change option" where
  "yard_accrual m msg w ys =
     (case current_yard_id m of
        None \<Rightarrow> (ys, None)
      | Some k \<Rightarrow>
          (case ys k of
             None \<Rightarrow> (ys, None)
           | Some y \<Rightarrow>
               if w > 0
               then (ys(k \<mapsto> fst (add_work_time y w)),
                     case snd (add_work_time y w) of
                       Some n \<Rightarrow> Some \<lparr>ev_yard_id = yard_id y, old_status = status y,
                             new_status = n, ev_timestamp = msg_timestamp msg,
                             ev_machine_id = machine_id m,
                             ev_work_time_added = w\<rparr>
                     | None \<Rightarrow> None)
               else (ys, None)))"

text \<open>
  Two systems hold the same stores: the same yards, machines and recorded events. Their
  service counters and processed-message counts may differ.
\<close>

definition same_stores :: "CleaningMonitoringSystem \<Rightarrow> CleaningMonitoringSystem \<Rightarrow> bool" where
  "same_stores s1 s2 =
     (yards s1 = yards s2 \<and> machines s1 = machines s2
      \<and> status_changes s1 = status_changes s2)"

subsection \<open>The quantization rule\<close>

lemma status_value_bands: "status_value s \<in> {0, 20, 40, 60, 80, 100}"
  by (cases s) simp_all

lemma completion_of_fraction:
  assumes "area y > 0" and "cleaned_area y = f * area y"
  shows "get_completion_percentage y = min (f * 100) 100"
  using assms by (simp add: get_completion_percentage_def)

text \<open>
  Claim C3. The band of a percentage \<open>p\<close> is 100 if \<open>p \<ge> 100\<close>, else 80 if \<open>p \<ge> 80\<close>,
  else 60 if \<open>p \<ge> 60\<close>, else 40 if \<open>p \<ge> 40\<close>, else 20 if \<open>p \<ge> 20\<close>, else 0; it is always
  one of the six bands. A yard whose cleaned area is 0.79 of its area is in band 60, one
  at 0.80 in band 80, and one at 1.00 in band 100.
\<close>

theorem band_for_percentage:
  "status_value (get_status_by_percentage p) =
     (if p \<ge> 100 then 100 else if p \<ge> 80 then 80 else if p \<ge> 60 then 60
      else if p \<ge> 40 then 40 else if p \<ge> 20 then 20 else 0)
   \<and> status_value (get_status_by_percentage p) \<in> {0, 20, 40, 60, 80, 100}
   \<and> (\<forall>y. area y > 0 \<and> cleaned_area y = 0.79 * area y \<longrightarrow>
          get_status_by_percentage (get_completion_percentage y) = PERCENT_60)
   \<and> (\<forall>y. area y > 0 \<and> cleaned_area y = 0.80 * area y \<longrightarrow>
          get_status_by_percentage (get_completion_percentage y) = PERCENT_80)
   \<and> (\<forall>y. area y > 0 \<and> cleaned_area y = 1.00 * area y \<longrightarrow>
          get_status_by_percentage (get_completion_percentage y) = PERCENT_100)"
proof (intro conjI allI impI)
  show "status_value (get_status_by_percentage p) =
     (if p \<ge> 100 then 100 else if p \<ge> 80 then 80 else if p \<ge> 60 then 60
      else if p \<ge> 40 then 40 else if p \<ge> 20 then 20 else 0)"
    by (simp add: get_status_by_percentage_def)
  show "status_value (get_status_by_percentage p) \<in> {0, 20, 40, 60, 80, 100}"
    by (rule status_value_bands)
next
  fix y :: Yard assume "area y > 0 \<and> cleaned_area y = 0.79 * area y"
  then have "get_completion_percentage y = min (0.79 * 100) 100"
    by (intro completion_of_fraction) simp_all
  then show "get_status_by_percentage (get_completion_percentage y) = PERCENT_60"
    by (simp add: get_status_by_percentage_def)
next
  fix y :: Yard assume "area y > 0 \<and> cleaned_area y = 0.80 * area y"
  then have "get_completion_percentage y = min (0.80 * 100) 100"
    by (intro completion_of_fraction) simp_all
  then show "get_status_by_percentage (get_completion_percentage y) = PERCENT_80"
    by (simp add: get_status_by_percentage_def)
next
  fix y :: Yard assume "area y > 0 \<and> cleaned_area y = 1.00 * area y"
  then have "get_completion_percentage y = min (1.00 * 100) 100"
    by (intro completion_of_fraction) simp_all
  then show "get_status_by_percentage (get_completion_percentage y) = PERCENT_100"
    by (simp add: get_status_by_percentage_def)
qed

theorem band_for_percentage_witness:
  "status_value (get_status_by_percentage 79) = 60
   \<and> 0 < area \<lparr>yard_id = 1, area = 100, cleaning_speed = 1, status = PERCENT_60,
               cleaned_area = 79, total_work_time = 79,
               status_history = [PERCENT_0, PERCENT_20, PERCENT_40, PERCENT_60]\<rparr>
   \<and> get_status_by_percentage (get_completion_percentage
        \<lparr>yard_id = 1, area = 100, cleaning_speed = 1, status = PERCENT_60,
         cleaned_area = 79, total_work_time = 79,
         status_history = [PERCENT_0, PERCENT_20, PERCENT_40, PERCENT_60]\<rparr>) = PERCENT_60"
  using band_for_percentage [of 79] by simp

subsection \<open>Work accrual on a yard\<close>

lemma add_work_time_frame:
  "yard_id (fst (add_work_time y w)) = yard_id y"
  "area (fst (add_work_time y w)) = area y"
  "cleaning_speed (fst (add_work_time y w)) = cleaning_speed y"
  by (simp_all add: add_work_time_def Let_def)

lemma add_work_time_cleaned_area:
  "cleaned_area (fst (add_work_time y w)) =
     (if w \<le> 0 then cleaned_area y
      else min (cleaned_area y + w * cleaning_speed y) (area y))"
  by (simp add: add_work_time_def Let_def min_def)

lemma add_work_time_total:
  "total_work_time (fst (add_work_time y w)) =
     (if w \<le> 0 then total_work_time y else total_work_time y + w)"
  by (simp add: add_work_time_def Let_def)

lemma add_work_time_percentage:
  "get_completion_percentage (fst (add_work_time y w)) =
     (if area y \<le> 0 then 0
      else min ((cleaned_area (fst (add_work_time y w)) / area y) * 100) 100)"
  by (simp add: get_completion_percentage_def add_work_time_frame)

lemma add_work_time_status:
  "0 < w \<Longrightarrow> status (fst (add_work_time y w)) =
     get_status_by_percentage (get_completion_percentage (fst (add_work_time y w)))"
  by (simp add: add_work_time_def Let_def get_completion_percentage_def)

lemma add_work_time_returns:
  "snd (add_work_time y w) =
     (if status (fst (add_work_time y w)) \<noteq> status y
      then Some (status (fst (add_work_time y w))) else None)"
  by (simp add: add_work_time_def Let_def)

lemma add_work_time_history:
  "status_history (fst (add_work_time y w)) =
     (if status (fst (add_work_time y w)) \<noteq> status y
      then status_history y @ [status (fst (add_work_time y w))] else status_history y)"
  by (simp add: add_work_time_def Let_def)

lemma band_mono:
  "p \<le> q \<Longrightarrow> status_value (get_status_by_percentage p) \<le> status_value (get_status_by_percentage q)"
  by (simp add: get_status_by_percentage_def)

lemma status_value_inj: "status_value a = status_value b \<Longrightarrow> a = b"
  by (cases a; cases b) simp_all

lemma cleaned_area_mono:
  assumes "0 < cleaning_speed y" and "cleaned_area y \<le> area y"
  shows "cleaned_area y \<le> cleaned_area (fst (add_work_time y w))"
  using assms by (simp add: add_work_time_cleaned_area min_def)

lemma cleaned_area_bounded:
  assumes "cleaned_area y \<le> area y"
  shows "cleaned_area (fst (add_work_time y w)) \<le> area y"
  using assms by (simp add: add_work_time_cleaned_area)

lemma percentage_mono:
  assumes "0 < area y" and "0 < cleaning_speed y" and "cleaned_area y \<le> area y"
  shows "get_completion_percentage y \<le> get_completion_percentage (fst (add_work_time y w))"
proof -
  let ?c' = "cleaned_area (fst (add_work_time y w))"
  have "cleaned_area y \<le> ?c'"
    using assms(2,3) by (rule cleaned_area_mono)
  then have "cleaned_area y / area y \<le> ?c' / area y"
    using assms(1) by (simp add: divide_right_mono)
  then have "cleaned_area y / area y * 100 \<le> ?c' / area y * 100"
    by (rule mult_right_mono) simp
  then have m: "min (cleaned_area y / area y * 100) 100 \<le> min (?c' / area y * 100) 100"
    by (intro min.mono) simp_all
  have p: "get_completion_percentage y = min (cleaned_area y / area y * 100) 100"
    using assms(1) by (simp add: get_completion_percentage_def)
  have p': "get_completion_percentage (fst (add_work_time y w)) = min (?c' / area y * 100) 100"
    using assms(1) by (simp add: add_work_time_percentage)
  show ?thesis unfolding p p' by (rule m)
qed

lemma status_mono:
  assumes "yard_invariant y"
  shows "status_value (status y) \<le> status_value (status (fst (add_work_time y w)))"
proof (cases "0 < w")
  case True
  from assms have "get_completion_percentage y \<le> get_completion_percentage (fst (add_work_time y w))"
    by (simp add: yard_invariant_def percentage_mono)
  then have "status_value (get_status_by_percentage (get_completion_percentage y))
             \<le> status_value (get_status_by_percentage
                   (get_completion_percentage (fst (add_work_time y w))))"
    by (rule band_mono)
  with assms True show ?thesis
    by (simp add: yard_invariant_def add_work_time_status)
next
  case False
  then show ?thesis by (simp add: add_work_time_def)
qed

lemma sorted_wrt_le_last:
  "sorted_wrt (<) xs \<Longrightarrow> a \<in> set xs \<Longrightarrow> a \<le> last (xs :: int list)"
  by (induction xs) (auto simp: less_imp_le)

lemma sorted_wrt_snoc_last:
  assumes "sorted_wrt (<) xs" and "xs \<noteq> []" and "last xs < (x::int)"
  shows "sorted_wrt (<) (xs @ [x])"
proof -
  have "a < x" if "a \<in> set xs" for a
    using sorted_wrt_le_last [OF assms(1) that] assms(3) by simp
  with assms(1) show ?thesis by (simp add: sorted_wrt_append)
qed

lemma add_work_time_invariant:
  assumes "yard_invariant y"
  shows "yard_invariant (fst (add_work_time y w))"
proof (cases "0 < w")
  case False
  then show ?thesis using assms by (simp add: add_work_time_def)
next
  case True
  let ?y' = "fst (add_work_time y w)"
  from assms have a: "0 < area y" "0 < cleaning_speed y" "0 \<le> cleaned_area y"
    "cleaned_area y \<le> area y" "status_history y \<noteq> []" "hd (status_history y) = PERCENT_0"
    "last (status_history y) = status y" "sorted_wrt (<) (map status_value (status_history y))"
    by (simp_all add: yard_invariant_def)
  have le: "status_value (status y) \<le> status_value (status ?y')"
    using assms by (rule status_mono)
  have c0: "0 \<le> cleaned_area ?y'"
    using a(3) cleaned_area_mono [OF a(2) a(4), of w] by linarith
  have c1: "cleaned_area ?y' \<le> area ?y'"
    using a(4) by (simp add: cleaned_area_bounded add_work_time_frame)
  have st: "status ?y' = get_status_by_percentage (get_completion_percentage ?y')"
    using True by (rule add_work_time_status)
  have h: "status_history ?y' \<noteq> [] \<and> hd (status_history ?y') = PERCENT_0
           \<and> last (status_history ?y') = status ?y'"
    using a(5-7) by (simp add: add_work_time_history)
  have srt: "sorted_wrt (<) (map status_value (status_history ?y'))"
  proof (cases "status ?y' = status y")
    case True
    then show ?thesis using a(8) by (simp add: add_work_time_history)
  next
    case False
    then have "status_value (status y) \<noteq> status_value (status ?y')"
      by (auto dest: status_value_inj)
    with le have lt: "status_value (status y) < status_value (status ?y')" by simp
    have "last (map status_value (status_history y)) = status_value (status y)"
      using a(5,7) by (simp add: last_map)
    with lt a(5,8) have "sorted_wrt (<) (map status_value (status_history y) @ [status_value (status ?y')])"
      by (intro sorted_wrt_snoc_last) simp_all
    with False show ?thesis by (simp add: add_work_time_history)
  qed
  show ?thesis
    unfolding yard_invariant_def
    using a(1,2) c0 c1 st h srt by (simp add: add_work_time_frame)
qed

lemma Yard_init_invariant:
  "Yard_init yid a r = Inr y \<Longrightarrow> yard_invariant y"
  by (auto simp: Yard_init_def yard_invariant_def get_completion_percentage_def
        get_status_by_percentage_def split: if_splits)

lemma Yard_init_fields:
  "Yard_init yid a r = Inr y \<Longrightarrow>
     cleaned_area y = 0 \<and> total_work_time y = 0 \<and> status y = PERCENT_0
     \<and> status_history y = [PERCENT_0] \<and> area y = a \<and> cleaning_speed y = r \<and> yard_id y = yid
     \<and> 0 < a \<and> 0 < r \<and> 0 < yid"
  by (auto simp: Yard_init_def split: if_splits)

lemma add_work_times_length: "length (add_work_times y ws) = length ws"
  by (induction ws arbitrary: y) (simp_all add: Let_def)

lemma add_work_times_step:
  "i < length ws \<Longrightarrow>
     add_work_times y ws ! i = add_work_time (yard_states y ws ! i) (ws ! i)"
proof (induction ws arbitrary: y i)
  case Nil
  then show ?case by simp
next
  case (Cons a ws)
  show ?case
  proof (cases i)
    case 0
    then show ?thesis by (simp add: Let_def)
  next
    case (Suc j)
    with Cons.prems have "j < length ws" by simp
    from Cons.IH [OF this, of "fst (add_work_time y a)"] Suc
    show ?thesis by (simp add: Let_def)
  qed
qed

lemma yard_states_step:
  assumes "i < length ws"
  shows "yard_states y ws ! Suc i = fst (add_work_time (yard_states y ws ! i) (ws ! i))"
    and "yard_returns y ws ! i = snd (add_work_time (yard_states y ws ! i) (ws ! i))"
  using assms add_work_times_step [OF assms, of y]
  by (simp_all add: add_work_times_length)

lemma yard_states_invariant:
  assumes "yard_invariant y"
  shows "i \<le> length ws \<Longrightarrow> yard_invariant (yard_states y ws ! i)"
proof (induction i)
  case 0
  then show ?case using assms by simp
next
  case (Suc i)
  then have "i < length ws" by simp
  with Suc show ?case
    by (simp only: yard_states_step) (simp add: add_work_time_invariant)
qed

lemma yard_states_area:
  "i \<le> length ws \<Longrightarrow> area (yard_states y ws ! i) = area y"
proof (induction i)
  case 0
  then show ?case by simp
next
  case (Suc i)
  then have "i < length ws" by simp
  with Suc show ?case
    by (simp only: yard_states_step) (simp add: add_work_time_frame)
qed

lemma transitions_snoc:
  "transitions (rs @ [r]) = transitions rs + (if r \<noteq> None then 1 else 0)"
  by (simp add: transitions_def)

lemma yard_states_history_length:
  "i \<le> length ws \<Longrightarrow>
     length (status_history (yard_states y ws ! i)) =
       length (status_history y) + transitions (take i (yard_returns y ws))"
proof (induction i)
  case 0
  then show ?case by (simp add: transitions_def)
next
  case (Suc i)
  then have i: "i < length ws" by simp
  then have "take (Suc i) (yard_returns y ws) =
               take i (yard_returns y ws) @ [yard_returns y ws ! i]"
    by (simp add: take_Suc_conv_app_nth add_work_times_length)
  moreover have "length (status_history (yard_states y ws ! i)) =
       length (status_history y) + transitions (take i (yard_returns y ws))"
    using Suc by simp
  ultimately show ?case
    by (simp only: yard_states_step [OF i] transitions_snoc)
       (simp add: add_work_time_history add_work_time_returns)
qed

text \<open>
  Claim C2. A yard created with a positive id, area and cleaning rate starts with cleaned
  area 0. Along any finite sequence of \<open>add_work_time\<close> calls (with any arguments), the
  cleaned area does not decrease from the state before a call to the state after it and
  never exceeds the area, which stays what it was; the total work time does not decrease
  either.
\<close>

theorem cleaned_area_monotone_and_clamped:
  assumes "0 < yid" and "0 < a" and "0 < r"
  shows "\<exists>y0. Yard_init yid a r = Inr y0 \<and> cleaned_area y0 = 0
           \<and> (\<forall>ws i. i < length ws \<longrightarrow>
                 cleaned_area (yard_states y0 ws ! i) \<le> cleaned_area (yard_states y0 ws ! Suc i)
                 \<and> cleaned_area (yard_states y0 ws ! Suc i) \<le> a
                 \<and> area (yard_states y0 ws ! Suc i) = a
                 \<and> total_work_time (yard_states y0 ws ! i)
                     \<le> total_work_time (yard_states y0 ws ! Suc i))"
proof -
  from assms obtain y0 where y0: "Yard_init yid a r = Inr y0"
    by (simp add: Yard_init_def)
  then have inv0: "yard_invariant y0" by (rule Yard_init_invariant)
  from y0 have f: "cleaned_area y0 = 0" "area y0 = a"
    by (simp_all add: Yard_init_fields)
  have "cleaned_area (yard_states y0 ws ! i) \<le> cleaned_area (yard_states y0 ws ! Suc i)
        \<and> cleaned_area (yard_states y0 ws ! Suc i) \<le> a
        \<and> area (yard_states y0 ws ! Suc i) = a
        \<and> total_work_time (yard_states y0 ws ! i) \<le> total_work_time (yard_states y0 ws ! Suc i)"
    if i: "i < length ws" for ws i
  proof -
    let ?y = "yard_states y0 ws ! i"
    from i have "yard_invariant ?y"
      by (intro yard_states_invariant [OF inv0]) simp
    then have v: "0 < cleaning_speed ?y" "cleaned_area ?y \<le> area ?y"
      by (simp_all add: yard_invariant_def)
    from i have ar: "area ?y = a"
      using yard_states_area [of i ws y0] f(2) by simp
    have "cleaned_area ?y \<le> cleaned_area (fst (add_work_time ?y (ws ! i)))"
      using v by (rule cleaned_area_mono)
    moreover have "cleaned_area (fst (add_work_time ?y (ws ! i))) \<le> a"
      using cleaned_area_bounded [OF v(2), of "ws ! i"] ar by simp
    moreover have "area (fst (add_work_time ?y (ws ! i))) = a"
      using ar by (simp add: add_work_time_frame)
    moreover have "total_work_time ?y \<le> total_work_time (fst (add_work_time ?y (ws ! i)))"
      by (simp add: add_work_time_total)
    ultimately show ?thesis
      by (simp only: yard_states_step [OF i])
  qed
  with y0 f show ?thesis by blast
qed

theorem cleaned_area_monotone_and_clamped_witness:
  "(0::int) < 1 \<and> (0::real) < 100 \<and> (0::real) < 1
   \<and> (\<exists>y0. Yard_init 1 100 1 = Inr y0 \<and> cleaned_area y0 = 0
         \<and> cleaned_area (yard_states y0 [120] ! 0) \<le> cleaned_area (yard_states y0 [120] ! Suc 0)
         \<and> cleaned_area (yard_states y0 [120] ! Suc 0) \<le> 100)"
proof -
  have h: "(0::int) < 1" "(0::real) < 100" "(0::real) < 1" by simp_all
  from cleaned_area_monotone_and_clamped [OF h] obtain y0 where
    y0: "Yard_init 1 100 1 = Inr y0" "cleaned_area y0 = 0"
    and st: "\<forall>ws i. i < length ws \<longrightarrow>
                 cleaned_area (yard_states y0 ws ! i) \<le> cleaned_area (yard_states y0 ws ! Suc i)
                 \<and> cleaned_area (yard_states y0 ws ! Suc i) \<le> 100
                 \<and> area (yard_states y0 ws ! Suc i) = 100
                 \<and> total_work_time (yard_states y0 ws ! i)
                     \<le> total_work_time (yard_states y0 ws ! Suc i)"
    by blast
  have "(0::nat) < length [120::real]" by simp
  with st have "cleaned_area (yard_states y0 [120] ! 0) \<le> cleaned_area (yard_states y0 [120] ! Suc 0)
         \<and> cleaned_area (yard_states y0 [120] ! Suc 0) \<le> 100"
    by blast
  with y0 h show ?thesis by blast
qed

text \<open>
  Claim C4. Take a yard as its constructor returns it and any finite sequence of
  \<open>add_work_time\<close> calls. After every call the stored status is the band of the current
  completion percentage, which is min (cleaned area / area * 100, 100); the status history
  starts with band 0, is strictly increasing in band value, ends with the current status,
  and its length is one more than the number of calls so far that returned a new band,
  a call returning a new band exactly when the stored status changed.
\<close>

theorem status_consistent_and_history:
  assumes "Yard_init yid a r = Inr y0" and "i < length ws"
  shows "status (yard_states y0 ws ! Suc i) =
           get_status_by_percentage (get_completion_percentage (yard_states y0 ws ! Suc i))
         \<and> get_completion_percentage (yard_states y0 ws ! Suc i) =
             min (cleaned_area (yard_states y0 ws ! Suc i) / area (yard_states y0 ws ! Suc i) * 100) 100
         \<and> hd (status_history (yard_states y0 ws ! Suc i)) = PERCENT_0
         \<and> sorted_wrt (<) (map status_value (status_history (yard_states y0 ws ! Suc i)))
         \<and> last (status_history (yard_states y0 ws ! Suc i)) = status (yard_states y0 ws ! Suc i)
         \<and> length (status_history (yard_states y0 ws ! Suc i)) =
             transitions (take (Suc i) (yard_returns y0 ws)) + 1
         \<and> yard_returns y0 ws ! i =
             (if status (yard_states y0 ws ! Suc i) \<noteq> status (yard_states y0 ws ! i)
              then Some (status (yard_states y0 ws ! Suc i)) else None)"
proof -
  let ?y = "yard_states y0 ws ! Suc i"
  from assms(1) have inv0: "yard_invariant y0" by (rule Yard_init_invariant)
  from assms(2) have "Suc i \<le> length ws" by simp
  with inv0 have inv: "yard_invariant ?y" by (rule yard_states_invariant)
  then have "0 < area ?y" by (simp add: yard_invariant_def)
  then have pct: "get_completion_percentage ?y = min (cleaned_area ?y / area ?y * 100) 100"
    by (simp add: get_completion_percentage_def)
  have len: "length (status_history ?y) = transitions (take (Suc i) (yard_returns y0 ws)) + 1"
    using yard_states_history_length [of "Suc i" ws y0] assms
    by (simp add: Yard_init_fields)
  have ret: "yard_returns y0 ws ! i =
             (if status ?y \<noteq> status (yard_states y0 ws ! i) then Some (status ?y) else None)"
    by (simp only: yard_states_step [OF assms(2)] add_work_time_returns)
  from inv have "status ?y = get_status_by_percentage (get_completion_percentage ?y)"
    "hd (status_history ?y) = PERCENT_0"
    "sorted_wrt (<) (map status_value (status_history ?y))"
    "last (status_history ?y) = status ?y"
    by (simp_all add: yard_invariant_def)
  with pct len ret show ?thesis by blast
qed

theorem status_consistent_and_history_witness:
  "status (yard_states
      \<lparr>yard_id = 1, area = 100, cleaning_speed = 1, status = PERCENT_0, cleaned_area = 0,
       total_work_time = 0, status_history = [PERCENT_0]\<rparr> [50, 70] ! Suc 1) =
     get_status_by_percentage (get_completion_percentage (yard_states
      \<lparr>yard_id = 1, area = 100, cleaning_speed = 1, status = PERCENT_0, cleaned_area = 0,
       total_work_time = 0, status_history = [PERCENT_0]\<rparr> [50, 70] ! Suc 1))
   \<and> sorted_wrt (<) (map status_value (status_history (yard_states
      \<lparr>yard_id = 1, area = 100, cleaning_speed = 1, status = PERCENT_0, cleaned_area = 0,
       total_work_time = 0, status_history = [PERCENT_0]\<rparr> [50, 70] ! Suc 1)))
   \<and> length (status_history (yard_states
      \<lparr>yard_id = 1, area = 100, cleaning_speed = 1, status = PERCENT_0, cleaned_area = 0,
       total_work_time = 0, status_history = [PERCENT_0]\<rparr> [50, 70] ! Suc 1)) =
     transitions (take (Suc 1) (yard_returns
      \<lparr>yard_id = 1, area = 100, cleaning_speed = 1, status = PERCENT_0, cleaned_area = 0,
       total_work_time = 0, status_history = [PERCENT_0]\<rparr> [50, 70])) + 1"
proof -
  have "Yard_init 1 100 1 =
          Inr \<lparr>yard_id = 1, area = 100, cleaning_speed = 1, status = PERCENT_0,
               cleaned_area = 0, total_work_time = 0, status_history = [PERCENT_0]\<rparr>"
    by (simp add: Yard_init_def)
  moreover have "(1::nat) < length [50, 70::real]" by simp
  ultimately show ?thesis
    using status_consistent_and_history by blast
qed

subsection \<open>What one call of \<open>update_position\<close> does\<close>

lemma calculate_work_time_cases:
  "calculate_work_time (Some s) (Some e) =
     (case datetime_sub e s of
        Inl err \<Rightarrow> Inl err
      | Inr d \<Rightarrow> Inr (if d < 0 \<or> d > 3600 then 0 else d))"
  "calculate_work_time None x = Inr 0"
  by (simp_all add: calculate_work_time_def split: sum.splits)

lemma datetime_sub_error: "datetime_sub e s = Inl err \<Longrightarrow> err = TypeError"
  by (cases e; cases s) simp_all

lemma calculate_work_time_error: "calculate_work_time a b = Inl err \<Longrightarrow> err = TypeError"
  by (auto simp: calculate_work_time_def dest: datetime_sub_error split: option.splits sum.splits if_splits)

lemma calculate_work_time_nonneg: "calculate_work_time a b = Inr w \<Longrightarrow> 0 \<le> w"
  by (auto simp: calculate_work_time_def split: option.splits sum.splits if_splits)

lemma update_position_outside:
  assumes "\<not> in_yard m"
  shows "update_position m msg = (machine_after m msg 0, Inr (changes_of m msg 0))"
proof (cases "current_yard_id m \<noteq> msg_yard_id msg")
  case True
  with assms show ?thesis
    by (cases "current_yard_id m"; cases "yard_entry_time m"; cases "msg_yard_id msg")
       (simp_all add: in_yard_def update_position_def Let_def machine_after_def changes_of_def
          changes_init_def)
next
  case False
  with assms show ?thesis
    by (cases "current_yard_id m"; cases "yard_entry_time m")
       (simp_all add: in_yard_def update_position_def Let_def machine_after_def changes_of_def
          changes_init_def)
qed

lemma update_position_fault:
  assumes "in_yard m"
    and "calculate_work_time (last_update m) (Some (msg_timestamp msg)) = Inl e"
  shows "update_position m msg = (m\<lparr>current_coordinates := msg_coordinates msg\<rparr>, Inl e)"
proof -
  from assms(2) obtain t where "last_update m = Some t"
    by (cases "last_update m") (simp_all add: calculate_work_time_cases)
  moreover from assms(1) obtain k t0 where "current_yard_id m = Some k" "yard_entry_time m = Some t0"
    by (auto simp: in_yard_def)
  ultimately show ?thesis using assms(2)
    by (simp add: update_position_def Let_def)
qed

lemma update_position_credited:
  assumes "in_yard m"
    and "calculate_work_time (last_update m) (Some (msg_timestamp msg)) = Inr w"
  shows "update_position m msg = (machine_after m msg w, Inr (changes_of m msg w))"
proof -
  from assms(1) obtain k t0 where k: "current_yard_id m = Some k" "yard_entry_time m = Some t0"
    by (auto simp: in_yard_def)
  have w0: "last_update m = None \<Longrightarrow> w = 0"
    using assms(2) by (simp add: calculate_work_time_cases)
  have wn: "0 \<le> w" using assms(2) by (rule calculate_work_time_nonneg)
  show ?thesis
  proof (cases "current_yard_id m \<noteq> msg_yard_id msg")
    case True
    show ?thesis
    proof (cases "w > 0")
      case w: True
      with True assms k show ?thesis
        by (cases "msg_yard_id msg"; cases "yard_work_history m k")
           (simp_all add: update_position_def Let_def machine_after_def
              changes_of_def changes_init_def machine_add_work_time_def)
    next
      case False
      with wn have "w = 0" by simp
      with True assms k show ?thesis
        by (cases "msg_yard_id msg")
           (simp_all add: update_position_def Let_def machine_after_def
              changes_of_def changes_init_def)
    qed
  next
    case False
    with k have mk: "msg_yard_id msg = Some k" by simp
    show ?thesis
    proof (cases "last_update m")
      case None
      with mk assms(2) k w0 show ?thesis
        by (simp add: update_position_def Let_def machine_after_def
              changes_of_def changes_init_def)
    next
      case (Some t)
      show ?thesis
      proof (cases "w > 0")
        case w: True
        with mk assms(2) k Some show ?thesis
          by (cases "yard_work_history m k")
             (simp_all add: update_position_def Let_def machine_after_def
                changes_of_def changes_init_def machine_add_work_time_def)
      next
        case nw: False
        with wn have "w = 0" by simp
        with mk assms(2) k Some show ?thesis
          by (simp add: update_position_def Let_def machine_after_def
              changes_of_def changes_init_def)
      qed
    qed
  qed
qed

lemma update_position_cases:
  obtains (fault) "in_yard m"
      and "calculate_work_time (last_update m) (Some (msg_timestamp msg)) = Inl TypeError"
      and "update_position m msg = (m\<lparr>current_coordinates := msg_coordinates msg\<rparr>, Inl TypeError)"
  | (returns) w where "0 \<le> w"
      and "if in_yard m
           then calculate_work_time (last_update m) (Some (msg_timestamp msg)) = Inr w
           else w = 0"
      and "update_position m msg = (machine_after m msg w, Inr (changes_of m msg w))"
proof (cases "in_yard m")
  case False
  then show ?thesis
    using update_position_outside [of m msg] returns [of 0] by simp
next
  case True
  show ?thesis
  proof (cases "calculate_work_time (last_update m) (Some (msg_timestamp msg))")
    case (Inl e)
    then have "e = TypeError" by (rule calculate_work_time_error)
    with True Inl update_position_fault [of m msg e] fault show ?thesis by simp
  next
    case (Inr w)
    then have "0 \<le> w" by (rule calculate_work_time_nonneg)
    with True Inr update_position_credited [of m msg w] returns [of w] show ?thesis by simp
  qed
qed


lemma update_position_raised:
  assumes "snd (update_position m msg) = Inl e"
  shows "fst (update_position m msg) = m\<lparr>current_coordinates := msg_coordinates msg\<rparr>"
    and "e = TypeError" and "in_yard m"
    and "calculate_work_time (last_update m) (Some (msg_timestamp msg)) = Inl TypeError"
  by (rule update_position_cases [where m = m and msg = msg]; use assms in simp)+

lemma update_position_always:
  "current_coordinates (fst (update_position m msg)) = msg_coordinates msg"
  "machine_id (fst (update_position m msg)) = machine_id m"
  by (rule update_position_cases [where m = m and msg = msg]; simp add: machine_after_def)+

lemma Machine_init_state:
  "Machine_init mid = Inr m \<Longrightarrow> entry_time_consistent m \<and> dwell_nonneg m"
  by (auto simp: Machine_init_def entry_time_consistent_def dwell_nonneg_def split: if_splits)

lemma update_position_consistent:
  "entry_time_consistent m \<Longrightarrow> entry_time_consistent (fst (update_position m msg))"
  by (rule update_position_cases [where m = m and msg = msg])
     (simp_all add: entry_time_consistent_def machine_after_def)

lemma update_position_dwell_nonneg:
  assumes "dwell_nonneg m"
  shows "dwell_nonneg (fst (update_position m msg))"
  by (rule update_position_cases [where m = m and msg = msg])
     (use assms in \<open>auto simp: dwell_nonneg_def machine_after_def split: option.splits if_splits\<close>)

lemma update_position_dwell_le: "dwell_le m (fst (update_position m msg))"
  by (rule update_position_cases [where m = m and msg = msg])
     (auto simp: dwell_le_def machine_after_def split: option.splits)

lemma update_positions_length: "length (update_positions m msgs) = length msgs"
  by (induction msgs arbitrary: m) (simp_all add: Let_def)

lemma update_positions_step:
  "i < length msgs \<Longrightarrow>
     (m # update_positions m msgs) ! Suc i =
       fst (update_position ((m # update_positions m msgs) ! i) (msgs ! i))"
proof (induction msgs arbitrary: m i)
  case Nil
  then show ?case by simp
next
  case (Cons a msgs)
  show ?case
  proof (cases i)
    case 0
    then show ?thesis by (simp add: Let_def)
  next
    case (Suc j)
    with Cons.prems have "j < length msgs" by simp
    from Cons.IH [OF this, of "fst (update_position m a)"] Suc
    show ?thesis by (simp add: Let_def)
  qed
qed

lemma update_positions_invariant:
  assumes "entry_time_consistent m" and "dwell_nonneg m"
  shows "i \<le> length msgs \<Longrightarrow>
           entry_time_consistent ((m # update_positions m msgs) ! i)
           \<and> dwell_nonneg ((m # update_positions m msgs) ! i)"
proof (induction i)
  case 0
  then show ?case using assms by simp
next
  case (Suc i)
  then have "i < length msgs" by simp
  with Suc show ?case
    by (simp only: update_positions_step)
       (simp add: update_position_consistent update_position_dwell_nonneg)
qed

lemma update_positions_last_consistent:
  "entry_time_consistent m \<Longrightarrow> entry_time_consistent (last (m # update_positions m msgs))"
proof (induction msgs arbitrary: m)
  case Nil
  then show ?case by simp
next
  case (Cons a msgs)
  from Cons.prems have "entry_time_consistent (fst (update_position m a))"
    by (rule update_position_consistent)
  then have "entry_time_consistent
               (last (fst (update_position m a) # update_positions (fst (update_position m a)) msgs))"
    by (rule Cons.IH)
  then show ?case by (simp add: Let_def)
qed

subsection \<open>The dwell-time rule\<close>

lemma credit_absent:
  assumes "last_update m = None"
  shows "\<exists>ch. snd (update_position m msg) = Inr ch \<and> work_time_added ch = 0"
  by (rule update_position_cases [where m = m and msg = msg])
     (use assms in \<open>auto simp: calculate_work_time_cases changes_of_def split: if_splits\<close>)

lemma credit_out_of_range:
  assumes "last_update m = Some t" and "datetime_sub (msg_timestamp msg) t = Inr d"
    and "d < 0 \<or> d > 3600"
  shows "\<exists>ch. snd (update_position m msg) = Inr ch \<and> work_time_added ch = 0"
  by (rule update_position_cases [where m = m and msg = msg])
     (use assms in \<open>auto simp: calculate_work_time_cases changes_of_def split: if_splits\<close>)

lemma credit_in_range:
  assumes "last_update m = Some t" and "datetime_sub (msg_timestamp msg) t = Inr d"
    and "0 \<le> d" and "d \<le> 3600" and "in_yard m"
  shows "\<exists>ch. snd (update_position m msg) = Inr ch \<and> work_time_added ch = d"
  by (rule update_position_cases [where m = m and msg = msg])
     (use assms in \<open>auto simp: calculate_work_time_cases changes_of_def split: if_splits\<close>)

lemma credit_incomparable:
  assumes "last_update m = Some t" and "datetime_sub (msg_timestamp msg) t = Inl e"
  shows "yard_work_history (fst (update_position m msg)) = yard_work_history m"
    and "snd (update_position m msg) = Inr ch \<Longrightarrow> work_time_added ch = 0"
  by (rule update_position_cases [where m = m and msg = msg];
      use assms in \<open>auto simp: calculate_work_time_cases changes_of_def machine_after_def
        split: if_splits\<close>)+

text \<open>
  Claim C1. For every machine state and report, with \<open>d\<close> the report's timestamp minus
  \<open>last_update\<close>: \<open>update_position\<close> returns and credits zero dwell when \<open>last_update\<close>
  is absent, and when \<open>d\<close> is negative or above 3600 seconds. When \<open>last_update\<close> is
  present, \<open>d\<close> lies in [0, 3600] and the machine is in a yard (a current yard with its
  entry time, which for every state reached from a fresh machine is the same as having a
  current yard), it returns and credits \<open>d\<close>. When the two timestamps cannot be
  subtracted there is no \<open>d\<close> and no dwell is added to the dwell map. A fresh machine that
  reports in a yard and reports again in the same yard 5000 seconds later is credited 0
  seconds.
\<close>

theorem dwell_credit:
  "(last_update m = None \<longrightarrow>
      (\<exists>ch. snd (update_position m msg) = Inr ch \<and> work_time_added ch = 0))
   \<and> (\<forall>t d. last_update m = Some t \<and> datetime_sub (msg_timestamp msg) t = Inr d
          \<and> (d < 0 \<or> d > 3600)
          \<longrightarrow> (\<exists>ch. snd (update_position m msg) = Inr ch \<and> work_time_added ch = 0))
   \<and> (\<forall>t d. last_update m = Some t \<and> datetime_sub (msg_timestamp msg) t = Inr d
          \<and> 0 \<le> d \<and> d \<le> 3600
          \<and> current_yard_id m \<noteq> None \<and> yard_entry_time m \<noteq> None
          \<longrightarrow> (\<exists>ch. snd (update_position m msg) = Inr ch \<and> work_time_added ch = d))
   \<and> (\<forall>mid m0 msgs t d. Machine_init mid = Inr m0 \<and> m = last (m0 # update_positions m0 msgs)
          \<and> last_update m = Some t \<and> datetime_sub (msg_timestamp msg) t = Inr d
          \<and> 0 \<le> d \<and> d \<le> 3600 \<and> current_yard_id m \<noteq> None
          \<longrightarrow> (\<exists>ch. snd (update_position m msg) = Inr ch \<and> work_time_added ch = d))
   \<and> (\<forall>t e. last_update m = Some t \<and> datetime_sub (msg_timestamp msg) t = Inl e
          \<longrightarrow> yard_work_history (fst (update_position m msg)) = yard_work_history m
              \<and> (\<forall>ch. snd (update_position m msg) = Inr ch \<longrightarrow> work_time_added ch = 0))
   \<and> (\<forall>mid m0 y c1 c2 t0 t1. Machine_init mid = Inr m0 \<and> datetime_sub t1 t0 = Inr 5000 \<longrightarrow>
          (\<exists>ch. snd (update_position
             (fst (update_position m0
                \<lparr>msg_machine_id = mid, msg_timestamp = t0, msg_coordinates = c1,
                 msg_yard_id = Some y\<rparr>))
             \<lparr>msg_machine_id = mid, msg_timestamp = t1, msg_coordinates = c2,
              msg_yard_id = Some y\<rparr>) = Inr ch \<and> work_time_added ch = 0))"
proof (intro conjI allI impI)
  assume "last_update m = None"
  then show "\<exists>ch. snd (update_position m msg) = Inr ch \<and> work_time_added ch = 0"
    by (rule credit_absent)
next
  fix t d
  assume "last_update m = Some t \<and> datetime_sub (msg_timestamp msg) t = Inr d
          \<and> (d < 0 \<or> d > 3600)"
  then show "\<exists>ch. snd (update_position m msg) = Inr ch \<and> work_time_added ch = 0"
    using credit_out_of_range [of m t msg d] by blast
next
  fix t d
  assume "last_update m = Some t \<and> datetime_sub (msg_timestamp msg) t = Inr d
          \<and> 0 \<le> d \<and> d \<le> 3600
          \<and> current_yard_id m \<noteq> None \<and> yard_entry_time m \<noteq> None"
  then show "\<exists>ch. snd (update_position m msg) = Inr ch \<and> work_time_added ch = d"
    using credit_in_range [of m t msg d] by (simp add: in_yard_def)
next
  fix mid m0 msgs t d
  assume a: "Machine_init mid = Inr m0 \<and> m = last (m0 # update_positions m0 msgs)
          \<and> last_update m = Some t \<and> datetime_sub (msg_timestamp msg) t = Inr d
          \<and> 0 \<le> d \<and> d \<le> 3600 \<and> current_yard_id m \<noteq> None"
  then have "Machine_init mid = Inr m0" by blast
  then have "entry_time_consistent m0"
    by (simp add: Machine_init_state)
  then have "entry_time_consistent (last (m0 # update_positions m0 msgs))"
    by (rule update_positions_last_consistent)
  moreover from a have "m = last (m0 # update_positions m0 msgs)" by blast
  ultimately have "entry_time_consistent m" by blast
  moreover from a have "current_yard_id m \<noteq> None" by blast
  ultimately have e: "in_yard m"
    by (simp add: entry_time_consistent_def in_yard_def)
  from a have "last_update m = Some t" "datetime_sub (msg_timestamp msg) t = Inr d"
    "0 \<le> d" "d \<le> 3600" by blast+
  then show "\<exists>ch. snd (update_position m msg) = Inr ch \<and> work_time_added ch = d"
    using e by (rule credit_in_range)
next
  fix t e
  assume "last_update m = Some t \<and> datetime_sub (msg_timestamp msg) t = Inl e"
  then show "yard_work_history (fst (update_position m msg)) = yard_work_history m"
    using credit_incomparable(1) [of m t msg e] by blast
next
  fix t e ch
  assume "last_update m = Some t \<and> datetime_sub (msg_timestamp msg) t = Inl e"
    and "snd (update_position m msg) = Inr ch"
  then show "work_time_added ch = 0"
    using credit_incomparable(2) [of m t msg e ch] by blast
next
  fix mid m0 y c1 c2 t0 t1
  assume a: "Machine_init mid = Inr m0 \<and> datetime_sub t1 t0 = Inr 5000"
  let ?a = "\<lparr>msg_machine_id = mid, msg_timestamp = t0, msg_coordinates = c1,
                 msg_yard_id = Some y\<rparr>"
  let ?b = "\<lparr>msg_machine_id = mid, msg_timestamp = t1, msg_coordinates = c2,
              msg_yard_id = Some y\<rparr>"
  from a have m0: "last_update m0 = None" "current_yard_id m0 = None"
    by (auto simp: Machine_init_def split: if_splits)
  then have "update_position m0 ?a = (machine_after m0 ?a 0, Inr (changes_of m0 ?a 0))"
    by (intro update_position_outside) (simp add: in_yard_def)
  then have "last_update (fst (update_position m0 ?a)) = Some t0"
    by (simp add: machine_after_def)
  moreover from a have "datetime_sub (msg_timestamp ?b) t0 = Inr 5000" by simp
  ultimately show "\<exists>ch. snd (update_position (fst (update_position m0 ?a)) ?b) = Inr ch
                     \<and> work_time_added ch = 0"
    by (rule credit_out_of_range) simp
qed

theorem dwell_credit_witness:
  "(\<exists>ch. snd (update_position
      \<lparr>machine_id = 1, current_coordinates = (0, 0), last_update = Some (Naive 0),
       current_yard_id = Some 7, previous_yard_id = None,
       yard_work_history = Map.empty, yard_entry_time = Some (Naive 0)\<rparr>
      \<lparr>msg_machine_id = 1, msg_timestamp = Naive 50, msg_coordinates = (1, 2),
       msg_yard_id = Some 7\<rparr>) = Inr ch \<and> work_time_added ch = 50)
   \<and> (\<exists>ch. snd (update_position
      \<lparr>machine_id = 1, current_coordinates = (0, 0), last_update = Some (Naive 0),
       current_yard_id = Some 7, previous_yard_id = None,
       yard_work_history = Map.empty, yard_entry_time = Some (Naive 0)\<rparr>
      \<lparr>msg_machine_id = 1, msg_timestamp = Naive 5000, msg_coordinates = (1, 2),
       msg_yard_id = Some 7\<rparr>) = Inr ch \<and> work_time_added ch = 0)"
proof -
  let ?m = "\<lparr>machine_id = 1, current_coordinates = (0, 0), last_update = Some (Naive 0),
       current_yard_id = Some 7, previous_yard_id = None,
       yard_work_history = Map.empty, yard_entry_time = Some (Naive 0)\<rparr>"
  let ?a = "\<lparr>msg_machine_id = 1, msg_timestamp = Naive 50, msg_coordinates = (1, 2),
       msg_yard_id = Some 7\<rparr>"
  let ?b = "\<lparr>msg_machine_id = 1, msg_timestamp = Naive 5000, msg_coordinates = (1, 2),
       msg_yard_id = Some 7\<rparr>"
  have "\<exists>ch. snd (update_position ?m ?a) = Inr ch \<and> work_time_added ch = 50"
    using dwell_credit [of ?m ?a, THEN conjunct2, THEN conjunct2, THEN conjunct1,
             rule_format, of "Naive 0" 50]
    by simp
  moreover
  have "\<exists>ch. snd (update_position ?m ?b) = Inr ch \<and> work_time_added ch = 0"
    using dwell_credit [of ?m ?b, THEN conjunct2, THEN conjunct1,
             rule_format, of "Naive 0" 5000]
    by simp
  ultimately show ?thesis by (rule conjI)
qed

subsection \<open>The frame of \<open>update_position\<close>\<close>




subsection \<open>The machine invariant along a sequence of reports\<close>

text \<open>
  Claim C7. Start from a freshly created machine and apply any sequence of
  \<open>update_position\<close> calls. After every call, whether it returned or raised, the entry
  time is set exactly when the current yard is set, every value of the dwell map is
  non-negative, and no value of the dwell map is lower than (or missing where it was
  present) before the call.
\<close>

theorem machine_state_invariant:
  assumes "Machine_init mid = Inr m0" and "i < length msgs"
  shows "entry_time_consistent ((m0 # update_positions m0 msgs) ! Suc i)
         \<and> dwell_nonneg ((m0 # update_positions m0 msgs) ! Suc i)
         \<and> dwell_le ((m0 # update_positions m0 msgs) ! i)
                    ((m0 # update_positions m0 msgs) ! Suc i)"
proof -
  from assms(1) have "entry_time_consistent m0" "dwell_nonneg m0"
    by (simp_all add: Machine_init_state)
  moreover from assms(2) have "Suc i \<le> length msgs" by simp
  ultimately have "entry_time_consistent ((m0 # update_positions m0 msgs) ! Suc i)
         \<and> dwell_nonneg ((m0 # update_positions m0 msgs) ! Suc i)"
    by (rule update_positions_invariant)
  moreover have "dwell_le ((m0 # update_positions m0 msgs) ! i)
                    ((m0 # update_positions m0 msgs) ! Suc i)"
    by (simp only: update_positions_step [OF assms(2)] update_position_dwell_le)
  ultimately show ?thesis by simp
qed

theorem machine_state_invariant_witness:
  "entry_time_consistent
     ((\<lparr>machine_id = 1, current_coordinates = (0, 0), last_update = None,
        current_yard_id = None, previous_yard_id = None,
        yard_work_history = Map.empty, yard_entry_time = None\<rparr>
       # update_positions
          \<lparr>machine_id = 1, current_coordinates = (0, 0), last_update = None,
        current_yard_id = None, previous_yard_id = None,
        yard_work_history = Map.empty, yard_entry_time = None\<rparr>
          [\<lparr>msg_machine_id = 1, msg_timestamp = Naive 0, msg_coordinates = (1, 2),
            msg_yard_id = Some 7\<rparr>,
           \<lparr>msg_machine_id = 1, msg_timestamp = Naive 50, msg_coordinates = (1, 3),
            msg_yard_id = Some 7\<rparr>]) ! Suc 1)
   \<and> dwell_nonneg
     ((\<lparr>machine_id = 1, current_coordinates = (0, 0), last_update = None,
        current_yard_id = None, previous_yard_id = None,
        yard_work_history = Map.empty, yard_entry_time = None\<rparr>
       # update_positions
          \<lparr>machine_id = 1, current_coordinates = (0, 0), last_update = None,
        current_yard_id = None, previous_yard_id = None,
        yard_work_history = Map.empty, yard_entry_time = None\<rparr>
          [\<lparr>msg_machine_id = 1, msg_timestamp = Naive 0, msg_coordinates = (1, 2),
            msg_yard_id = Some 7\<rparr>,
           \<lparr>msg_machine_id = 1, msg_timestamp = Naive 50, msg_coordinates = (1, 3),
            msg_yard_id = Some 7\<rparr>]) ! Suc 1)"
proof -
  have "Machine_init 1 =
          Inr \<lparr>machine_id = 1, current_coordinates = (0, 0), last_update = None,
        current_yard_id = None, previous_yard_id = None,
        yard_work_history = Map.empty, yard_entry_time = None\<rparr>"
    by (simp add: Machine_init_def)
  moreover have "(1::nat) < length
          [\<lparr>msg_machine_id = 1, msg_timestamp = Naive 0, msg_coordinates = (1, 2),
            msg_yard_id = Some 7\<rparr>,
           \<lparr>msg_machine_id = 1, msg_timestamp = Naive 50, msg_coordinates = (1, 3),
            msg_yard_id = Some 7\<rparr>]"
    by simp
  ultimately show ?thesis
    using machine_state_invariant by blast
qed

subsection \<open>The update engine in closed form\<close>

lemma handle_yard_change_no_left:
  "left_yard ch = None \<Longrightarrow> handle_yard_change m ch ys t = (ys, None)"
  by (simp add: handle_yard_change_def)

lemma handle_yard_change_unknown:
  "left_yard ch = Some k \<Longrightarrow> ys k = None \<Longrightarrow> handle_yard_change m ch ys t = (ys, None)"
  by (simp add: handle_yard_change_def)

lemma handle_yard_change_known:
  "left_yard ch = Some k \<Longrightarrow> ys k = Some y \<Longrightarrow>
     handle_yard_change m ch ys t =
       (if work_time_added ch > 0
        then (ys(k \<mapsto> fst (add_work_time y (work_time_added ch))),
              case snd (add_work_time y (work_time_added ch)) of
                Some n \<Rightarrow> Some \<lparr>ev_yard_id = yard_id y, old_status = status y,
                                 new_status = n, ev_timestamp = t,
                                 ev_machine_id = machine_id m,
                                 ev_work_time_added = work_time_added ch\<rparr>
              | None \<Rightarrow> None)
        else (ys, None))"
  by (simp add: handle_yard_change_def Let_def case_prod_beta add_work_time_frame
           split: option.splits)

lemma process_machine_update_fault:
  assumes "update_position m msg = (m1, Inl e)"
  shows "process_machine_update svc m msg ys =
           (svc\<lparr>message_count := message_count svc + 1,
                 error_count := error_count svc + 1\<rparr>, m1, ys, None)"
  using assms by (simp add: process_machine_update_def)

lemma process_machine_update_returns:
  assumes u: "update_position m msg = (machine_after m msg w, Inr (changes_of m msg w))"
  shows "process_machine_update svc m msg ys =
           (svc\<lparr>message_count := message_count svc + 1\<rparr>,
            machine_after m msg w, yard_accrual m msg w ys)"
proof -
  let ?m1 = "machine_after m msg w"
  let ?ch = "changes_of m msg w"
  have mid: "machine_id ?m1 = machine_id m" by (simp add: machine_after_def)
  have wa: "work_time_added ?ch = w" by (simp add: changes_of_def)
  show ?thesis
  proof (cases "current_yard_id m \<noteq> msg_yard_id msg")
    case True
    then have yc: "yard_changed ?ch" by (simp add: changes_of_def)
    have ly: "left_yard ?ch = (if w > 0 then current_yard_id m else None)"
      using True by (simp add: changes_of_def)
    have "handle_yard_change ?m1 ?ch ys (msg_timestamp msg) = yard_accrual m msg w ys"
    proof (cases "current_yard_id m")
      case None
      with ly have "left_yard ?ch = None" by simp
      then show ?thesis using None
        by (simp add: yard_accrual_def handle_yard_change_no_left)
    next
      case (Some k)
      show ?thesis
      proof (cases "w > 0")
        case False
        with ly have "left_yard ?ch = None" by simp
        then show ?thesis using False Some
          by (simp add: yard_accrual_def handle_yard_change_no_left split: option.splits)
      next
        case w: True
        with ly Some have l: "left_yard ?ch = Some k" by simp
        show ?thesis
        proof (cases "ys k")
          case None
          then show ?thesis using l Some
            by (simp add: yard_accrual_def handle_yard_change_unknown)
        next
          case y: (Some y)
          from handle_yard_change_known [of ?ch k ys y ?m1 "msg_timestamp msg", OF l y] w
          show ?thesis using Some y
            by (simp add: yard_accrual_def wa mid split: option.splits)
        qed
      qed
    qed
    with yc u show ?thesis
      by (simp add: process_machine_update_def)
  next
    case False
    then have same: "current_yard_id m = msg_yard_id msg" by simp
    then have yc: "\<not> yard_changed ?ch" by (simp add: changes_of_def)
    have cy: "current_yard_id ?m1 = current_yard_id m"
      using same by (simp add: machine_after_def)
    show ?thesis
    proof (cases "current_yard_id m")
      case None
      then show ?thesis using yc u cy
        by (simp add: process_machine_update_def yard_accrual_def)
    next
      case (Some k)
      show ?thesis
      proof (cases "ys k")
        case None
        then show ?thesis using yc u cy Some
          by (simp add: process_machine_update_def yard_accrual_def)
      next
        case y: (Some y)
        show ?thesis
        proof (cases "w > 0")
          case False
          then show ?thesis using yc u cy Some y
            by (simp add: process_machine_update_def yard_accrual_def wa)
        next
          case True
          then show ?thesis using yc u cy Some y
            by (simp add: process_machine_update_def yard_accrual_def wa Let_def
                  case_prod_beta add_work_time_frame mid
                  split: option.splits)
        qed
      qed
    qed
  qed
qed

lemma process_machine_update_cases:
  obtains (fault) "snd (update_position m msg) = Inl TypeError"
      and "fst (update_position m msg) = m\<lparr>current_coordinates := msg_coordinates msg\<rparr>"
      and "process_machine_update svc m msg ys =
             (svc\<lparr>message_count := message_count svc + 1,
                   error_count := error_count svc + 1\<rparr>,
              m\<lparr>current_coordinates := msg_coordinates msg\<rparr>, ys, None)"
  | (returns) w where "0 \<le> w"
      and "if in_yard m
           then calculate_work_time (last_update m) (Some (msg_timestamp msg)) = Inr w
           else w = 0"
      and "update_position m msg = (machine_after m msg w, Inr (changes_of m msg w))"
      and "process_machine_update svc m msg ys =
             (svc\<lparr>message_count := message_count svc + 1\<rparr>,
              machine_after m msg w, yard_accrual m msg w ys)"
proof (rule update_position_cases [where m = m and msg = msg])
  assume "update_position m msg = (m\<lparr>current_coordinates := msg_coordinates msg\<rparr>, Inl TypeError)"
  then show thesis
    using fault process_machine_update_fault [of m msg _ TypeError svc ys] by simp
next
  fix w
  assume "0 \<le> w"
    and "if in_yard m
         then calculate_work_time (last_update m) (Some (msg_timestamp msg)) = Inr w
         else w = 0"
    and "update_position m msg = (machine_after m msg w, Inr (changes_of m msg w))"
  then show thesis
    using returns [of w] process_machine_update_returns [of m msg w svc ys] by simp
qed

lemma yard_accrual_unknown:
  "current_yard_id m = Some k \<Longrightarrow> ys k = None \<Longrightarrow> yard_accrual m msg w ys = (ys, None)"
  by (simp add: yard_accrual_def)

lemma yard_accrual_outside:
  "current_yard_id m = None \<Longrightarrow> yard_accrual m msg w ys = (ys, None)"
  by (simp add: yard_accrual_def)





subsection \<open>A first report inside a yard\<close>

text \<open>
  The system after a one-yard directory (area 100, rate 1) is loaded and a new machine
  sends its first report from inside that yard.
\<close>

lemma first_report_in_yard:
  assumes "0 < mid" and "0 < yid"
  shows "fst (process_single_message
               (fst (load_yard_directory CleaningMonitoringSystem_init [(yid, 100, 1)]))
               \<lparr>data_machine_id = mid, data_timestamp = Some t0, data_x = x1,
                data_y = y1, data_yard_id = Some yid\<rparr>) =
         \<lparr>cleaning_service = \<lparr>message_count = 1, error_count = 0\<rparr>,
          machines = [mid \<mapsto>
            \<lparr>machine_id = mid, current_coordinates = (x1, y1), last_update = Some t0,
             current_yard_id = Some yid, previous_yard_id = None,
             yard_work_history = Map.empty, yard_entry_time = Some t0\<rparr>],
          yards = [yid \<mapsto>
            \<lparr>yard_id = yid, area = 100, cleaning_speed = 1, status = PERCENT_0,
             cleaned_area = 0, total_work_time = 0, status_history = [PERCENT_0]\<rparr>],
          status_changes = [], processed_messages = 0\<rparr>"
proof -
  let ?y0 = "\<lparr>yard_id = yid, area = 100, cleaning_speed = 1, status = PERCENT_0,
              cleaned_area = 0, total_work_time = 0, status_history = [PERCENT_0]\<rparr>"
  let ?s0 = "CleaningMonitoringSystem_init\<lparr>yards := [yid \<mapsto> ?y0]\<rparr>"
  let ?m0 = "\<lparr>machine_id = mid, current_coordinates = (0, 0), last_update = None,
               current_yard_id = None, previous_yard_id = None,
               yard_work_history = Map.empty, yard_entry_time = None\<rparr>"
  let ?msg1 = "\<lparr>msg_machine_id = mid, msg_timestamp = t0, msg_coordinates = (x1, y1),
               msg_yard_id = Some yid\<rparr>"
  let ?m1 = "\<lparr>machine_id = mid, current_coordinates = (x1, y1), last_update = Some t0,
              current_yard_id = Some yid, previous_yard_id = None,
              yard_work_history = Map.empty, yard_entry_time = Some t0\<rparr>"
  have s0: "fst (load_yard_directory CleaningMonitoringSystem_init [(yid, 100, 1)]) = ?s0"
    using assms(2) by (simp add: Yard_init_def CleaningMonitoringSystem_init_def)
  have u1: "update_position ?m0 ?msg1 =
              (machine_after ?m0 ?msg1 0, Inr (changes_of ?m0 ?msg1 0))"
    by (rule update_position_outside) (simp add: in_yard_def)
  have p1: "process_machine_update svc ?m0 ?msg1 ys =
              (svc\<lparr>message_count := message_count svc + 1\<rparr>, ?m1, ys, None)" for svc ys
    using process_machine_update_returns [OF u1, of svc ys]
    by (simp add: machine_after_def yard_accrual_def)
  show ?thesis
    unfolding s0 using assms
    by (simp add: process_single_message_def MachineMessage_init_def Machine_init_def
          CleaningMonitoringSystem_init_def CleaningService_init_def p1)
qed

subsection \<open>Reports that name a yard outside the directory\<close>

text \<open>
  The directory that \<open>load_yard_directory\<close> builds stores every yard under its own id.
\<close>

lemma load_yard_directory_keys:
  "\<forall>k y. yards s k = Some y \<longrightarrow> yard_id y = k \<Longrightarrow>
     \<forall>k y. yards (fst (load_yard_directory s yard_data)) k = Some y \<longrightarrow> yard_id y = k"
proof (induction yard_data arbitrary: s)
  case Nil
  then show ?case by simp
next
  case (Cons d yard_data)
  obtain yid a speed where d: "d = (yid, a, speed)" by (cases d)
  show ?case
  proof (cases "Yard_init yid a speed")
    case (Inl e)
    with Cons.prems d show ?thesis by simp
  next
    case (Inr yard)
    have "\<forall>k y. yards (s\<lparr>yards := (yards s)(yard_id yard \<mapsto> yard)\<rparr>) k = Some y \<longrightarrow> yard_id y = k"
      using Cons.prems by auto
    from Cons.IH [OF this] Inr d show ?thesis by simp
  qed
qed

text \<open>
  Claim C10. The machine that \<open>process_machine_update\<close> returns is the one
  \<open>update_position\<close> leaves, whatever the yard directory holds. Whenever a report
  credits positive dwell, the machine was in some yard \<open>k\<close> and its own dwell map at \<open>k\<close>
  grows by that credit (from 0 when \<open>k\<close> had no entry), also when \<open>k\<close> is not in the
  directory; in that case the directory is returned unchanged and no event is produced.
\<close>

theorem dwell_independent_of_directory:
  "(case process_machine_update svc m msg ys of
      (svc', m', ys', sc) \<Rightarrow>
        m' = fst (update_position m msg)
        \<and> (\<forall>ch. snd (update_position m msg) = Inr ch \<and> 0 < work_time_added ch \<longrightarrow>
             (\<exists>k. current_yard_id m = Some k
                \<and> yard_work_history m' k =
                    Some ((case yard_work_history m k of None \<Rightarrow> 0 | Some v \<Rightarrow> v)
                          + work_time_added ch)
                \<and> (ys k = None \<longrightarrow> ys' = ys \<and> sc = None))))"
proof (rule process_machine_update_cases [where m = m and msg = msg and svc = svc and ys = ys])
  assume "snd (update_position m msg) = Inl TypeError"
    and "fst (update_position m msg) = m\<lparr>current_coordinates := msg_coordinates msg\<rparr>"
    and "process_machine_update svc m msg ys =
             (svc\<lparr>message_count := message_count svc + 1,
                   error_count := error_count svc + 1\<rparr>,
              m\<lparr>current_coordinates := msg_coordinates msg\<rparr>, ys, None)"
  then show ?thesis by simp
next
  fix w
  assume wy: "if in_yard m
           then calculate_work_time (last_update m) (Some (msg_timestamp msg)) = Inr w
           else w = 0"
    and u: "update_position m msg = (machine_after m msg w, Inr (changes_of m msg w))"
    and p: "process_machine_update svc m msg ys =
             (svc\<lparr>message_count := message_count svc + 1\<rparr>,
              machine_after m msg w, yard_accrual m msg w ys)"
  have "\<exists>k. current_yard_id m = Some k
          \<and> yard_work_history (machine_after m msg w) k =
              Some ((case yard_work_history m k of None \<Rightarrow> 0 | Some v \<Rightarrow> v) + w)
          \<and> (ys k = None \<longrightarrow> yard_accrual m msg w ys = (ys, None))"
    if w: "0 < w"
  proof -
    from w wy have "in_yard m" by (auto split: if_splits)
    then obtain k where k: "current_yard_id m = Some k" by (auto simp: in_yard_def)
    with w show ?thesis
      by (simp add: machine_after_def yard_accrual_unknown)
  qed
  then show ?thesis
    using u p by (auto simp: changes_of_def)
qed

theorem dwell_independent_of_directory_witness:
  "(case process_machine_update CleaningService_init
      \<lparr>machine_id = 1, current_coordinates = (0, 0), last_update = Some (Naive 0),
       current_yard_id = Some 99, previous_yard_id = None,
       yard_work_history = Map.empty, yard_entry_time = Some (Naive 0)\<rparr>
      \<lparr>msg_machine_id = 1, msg_timestamp = Naive 50, msg_coordinates = (1, 2),
       msg_yard_id = Some 99\<rparr>
      [(1::int) \<mapsto> \<lparr>yard_id = 1, area = 100, cleaning_speed = 1, status = PERCENT_0,
              cleaned_area = 0, total_work_time = 0, status_history = [PERCENT_0]\<rparr>] of
      (svc', m', ys', sc) \<Rightarrow>
        yard_work_history m' 99 = Some 50
        \<and> ys' = [(1::int) \<mapsto> \<lparr>yard_id = 1, area = 100, cleaning_speed = 1, status = PERCENT_0,
              cleaned_area = 0, total_work_time = 0, status_history = [PERCENT_0]\<rparr>]
        \<and> sc = None)"
proof -
  let ?m = "\<lparr>machine_id = 1, current_coordinates = (0, 0), last_update = Some (Naive 0),
       current_yard_id = Some 99, previous_yard_id = None,
       yard_work_history = Map.empty, yard_entry_time = Some (Naive 0)\<rparr>"
  let ?msg = "\<lparr>msg_machine_id = 1, msg_timestamp = Naive 50, msg_coordinates = (1, 2),
       msg_yard_id = Some 99\<rparr>"
  let ?ys = "[(1::int) \<mapsto> \<lparr>yard_id = 1, area = 100, cleaning_speed = 1, status = PERCENT_0,
              cleaned_area = 0, total_work_time = 0, status_history = [PERCENT_0]\<rparr>]"
  have u: "update_position ?m ?msg = (machine_after ?m ?msg 50, Inr (changes_of ?m ?msg 50))"
    by (rule update_position_credited) (simp_all add: in_yard_def calculate_work_time_cases)
  obtain svc' m' ys' sc where
    p: "process_machine_update CleaningService_init ?m ?msg ?ys = (svc', m', ys', sc)"
    by (cases "process_machine_update CleaningService_init ?m ?msg ?ys")
  have h: "snd (update_position ?m ?msg) = Inr (changes_of ?m ?msg 50)
           \<and> 0 < work_time_added (changes_of ?m ?msg 50)"
    by (simp add: u changes_of_def)
  note t = dwell_independent_of_directory
         [where svc = CleaningService_init and m = ?m and msg = ?msg and ys = ?ys,
          unfolded p prod.case, THEN conjunct2, rule_format, OF h]
  from t obtain k where
    kk: "current_yard_id ?m = Some k
         \<and> yard_work_history m' k =
           Some ((case yard_work_history ?m k of None \<Rightarrow> 0 | Some v \<Rightarrow> v)
                 + work_time_added (changes_of ?m ?msg 50))
         \<and> (?ys k = None \<longrightarrow> ys' = ?ys \<and> sc = None)" ..
  from kk [THEN conjunct1] have k: "k = 99" by simp
  from kk [THEN conjunct2, THEN conjunct1] have 1: "yard_work_history m' 99 = Some 50"
    unfolding k by (simp add: changes_of_def)
  from kk [THEN conjunct2, THEN conjunct2] have 2: "ys' = ?ys \<and> sc = None"
    unfolding k by simp
  from 1 2 show ?thesis unfolding p prod.case by (rule conjI)
qed




subsection \<open>Worked example: entering a yard and leaving it\<close>

text \<open>
  Claim C5. Load a directory with one yard of area 100 and cleaning rate 1 into a new
  system. A new machine reports inside that yard, and 120 seconds later outside all
  yards. After the first report no event is recorded and the yard has cleaned area 0.
  After the second report no error is counted, the machine has 120 seconds of dwell for
  the yard, the yard has total work time 120, cleaned area 100 (clamped from 120) and
  status 100, and exactly one event is recorded, from band 0 to band 100, with the leave
  report's timestamp.
\<close>

theorem worked_example_leave:
  assumes "0 < mid" and "0 < yid" and "datetime_sub t1 t0 = Inr 120"
  shows "(let s0 = fst (load_yard_directory CleaningMonitoringSystem_init [(yid, 100, 1)]);
              s1 = fst (process_single_message s0
                     \<lparr>data_machine_id = mid, data_timestamp = Some t0, data_x = x1,
                      data_y = y1, data_yard_id = Some yid\<rparr>);
              s2 = fst (process_single_message s1
                     \<lparr>data_machine_id = mid, data_timestamp = Some t1, data_x = x2,
                      data_y = y2, data_yard_id = None\<rparr>)
          in status_changes s1 = []
             \<and> map_option cleaned_area (yards s1 yid) = Some 0
             \<and> error_count (cleaning_service s2) = 0
             \<and> map_option (\<lambda>m. yard_work_history m yid) (machines s2 mid) = Some (Some 120)
             \<and> map_option cleaned_area (yards s2 yid) = Some 100
             \<and> map_option total_work_time (yards s2 yid) = Some 120
             \<and> map_option status (yards s2 yid) = Some PERCENT_100
             \<and> status_changes s2 =
                 [\<lparr>ev_yard_id = yid, old_status = PERCENT_0, new_status = PERCENT_100,
                   ev_timestamp = t1, ev_machine_id = mid, ev_work_time_added = 120\<rparr>])"
proof -
  let ?y0 = "\<lparr>yard_id = yid, area = 100, cleaning_speed = 1, status = PERCENT_0,
              cleaned_area = 0, total_work_time = 0, status_history = [PERCENT_0]\<rparr>"
  let ?md2 = "\<lparr>data_machine_id = mid, data_timestamp = Some t1, data_x = x2,
                      data_y = y2, data_yard_id = None\<rparr>"
  let ?msg2 = "\<lparr>msg_machine_id = mid, msg_timestamp = t1, msg_coordinates = (x2, y2),
               msg_yard_id = None\<rparr>"
  let ?m1 = "\<lparr>machine_id = mid, current_coordinates = (x1, y1), last_update = Some t0,
              current_yard_id = Some yid, previous_yard_id = None,
              yard_work_history = Map.empty, yard_entry_time = Some t0\<rparr>"
  let ?s1 = "\<lparr>cleaning_service = \<lparr>message_count = 1, error_count = 0\<rparr>,
              machines = [mid \<mapsto> ?m1],
              yards = [yid \<mapsto> ?y0], status_changes = [], processed_messages = 0\<rparr>"
  note s1 = first_report_in_yard [OF assms(1,2), of t0 x1 y1]
  let ?m2 = "\<lparr>machine_id = mid, current_coordinates = (x2, y2), last_update = Some t1,
              current_yard_id = None, previous_yard_id = Some yid,
              yard_work_history = [yid \<mapsto> 120], yard_entry_time = None\<rparr>"
  let ?y2 = "\<lparr>yard_id = yid, area = 100, cleaning_speed = 1, status = PERCENT_100,
              cleaned_area = 100, total_work_time = 120,
              status_history = [PERCENT_0, PERCENT_100]\<rparr>"
  let ?ev = "\<lparr>ev_yard_id = yid, old_status = PERCENT_0, new_status = PERCENT_100,
              ev_timestamp = t1, ev_machine_id = mid, ev_work_time_added = 120\<rparr>"
  let ?s2 = "\<lparr>cleaning_service = \<lparr>message_count = 2, error_count = 0\<rparr>,
              machines = [mid \<mapsto> ?m2], yards = [yid \<mapsto> ?y2],
              status_changes = [?ev], processed_messages = 0\<rparr>"
  have u2: "update_position ?m1 ?msg2 =
              (machine_after ?m1 ?msg2 120, Inr (changes_of ?m1 ?msg2 120))"
    by (rule update_position_credited)
       (simp_all add: in_yard_def calculate_work_time_cases assms(3))
  have a: "add_work_time ?y0 120 = (?y2, Some PERCENT_100)"
    by (simp add: add_work_time_def Let_def get_completion_percentage_def
          get_status_by_percentage_def)
  have p2: "process_machine_update svc ?m1 ?msg2 [yid \<mapsto> ?y0] =
              (svc\<lparr>message_count := message_count svc + 1\<rparr>, ?m2, [yid \<mapsto> ?y2], Some ?ev)"
    for svc
    using process_machine_update_returns [OF u2, of svc "[yid \<mapsto> ?y0]"]
    by (simp add: machine_after_def yard_accrual_def a)
  have s2: "fst (process_single_message ?s1 ?md2) = ?s2"
    using assms(1)
    by (simp add: process_single_message_def MachineMessage_init_def p2)
  show ?thesis
    unfolding Let_def s1 s2 by simp
qed

theorem worked_example_leave_witness:
  "0 < (1::int) \<and> datetime_sub (Naive 120) (Naive 0) = Inr 120
   \<and> (let s0 = fst (load_yard_directory CleaningMonitoringSystem_init [(1, 100, 1)]);
              s1 = fst (process_single_message s0
                     \<lparr>data_machine_id = 1, data_timestamp = Some (Naive 0), data_x = 3,
                      data_y = 4, data_yard_id = Some 1\<rparr>);
              s2 = fst (process_single_message s1
                     \<lparr>data_machine_id = 1, data_timestamp = Some (Naive 120), data_x = 5,
                      data_y = 6, data_yard_id = None\<rparr>)
          in status_changes s1 = []
             \<and> map_option cleaned_area (yards s1 1) = Some 0
             \<and> error_count (cleaning_service s2) = 0
             \<and> map_option (\<lambda>m. yard_work_history m 1) (machines s2 1) = Some (Some 120)
             \<and> map_option cleaned_area (yards s2 1) = Some 100
             \<and> map_option total_work_time (yards s2 1) = Some 120
             \<and> map_option status (yards s2 1) = Some PERCENT_100
             \<and> status_changes s2 =
                 [\<lparr>ev_yard_id = 1, old_status = PERCENT_0, new_status = PERCENT_100,
                   ev_timestamp = Naive 120, ev_machine_id = 1, ev_work_time_added = 120\<rparr>])"
proof (intro conjI)
  show h: "0 < (1::int)" by simp
  show d: "datetime_sub (Naive 120) (Naive 0) = Inr 120" by simp
  from worked_example_leave [OF h h d, where ?x1.0 = 3 and ?y1.0 = 4 and ?x2.0 = 5 and ?y2.0 = 6]
  show "let s0 = fst (load_yard_directory CleaningMonitoringSystem_init [(1, 100, 1)]);
              s1 = fst (process_single_message s0
                     \<lparr>data_machine_id = 1, data_timestamp = Some (Naive 0), data_x = 3,
                      data_y = 4, data_yard_id = Some 1\<rparr>);
              s2 = fst (process_single_message s1
                     \<lparr>data_machine_id = 1, data_timestamp = Some (Naive 120), data_x = 5,
                      data_y = 6, data_yard_id = None\<rparr>)
          in status_changes s1 = []
             \<and> map_option cleaned_area (yards s1 1) = Some 0
             \<and> error_count (cleaning_service s2) = 0
             \<and> map_option (\<lambda>m. yard_work_history m 1) (machines s2 1) = Some (Some 120)
             \<and> map_option cleaned_area (yards s2 1) = Some 100
             \<and> map_option total_work_time (yards s2 1) = Some 120
             \<and> map_option status (yards s2 1) = Some PERCENT_100
             \<and> status_changes s2 =
                 [\<lparr>ev_yard_id = 1, old_status = PERCENT_0, new_status = PERCENT_100,
                   ev_timestamp = Naive 120, ev_machine_id = 1, ev_work_time_added = 120\<rparr>]" .
qed

subsection \<open>Batch processing depends only on the stores and the reports\<close>

lemma process_machine_update_stores:
  "snd (process_machine_update svc1 m msg ys) = snd (process_machine_update svc2 m msg ys)"
  by (rule process_machine_update_cases [where m = m and msg = msg and svc = svc1 and ys = ys];
      rule process_machine_update_cases [where m = m and msg = msg and svc = svc2 and ys = ys];
      simp add: changes_of_def)

lemma process_single_message_stores:
  assumes "same_stores s1 s2"
  shows "same_stores (fst (process_single_message s1 md)) (fst (process_single_message s2 md))
         \<and> snd (process_single_message s1 md) = snd (process_single_message s2 md)"
proof (cases "data_timestamp md")
  case None
  with assms show ?thesis by (simp add: process_single_message_def)
next
  case (Some ts)
  show ?thesis
  proof (cases "MachineMessage_init (data_machine_id md) ts (data_x md, data_y md)
                  (data_yard_id md)")
    case (Inl e)
    with Some assms show ?thesis by (simp add: process_single_message_def)
  next
    case (Inr message)
    let ?mm = "case machines s1 (msg_machine_id message) of
                 Some m \<Rightarrow> Inr m | None \<Rightarrow> Machine_init (msg_machine_id message)"
    have mm: "(case machines s2 (msg_machine_id message) of
                 Some m \<Rightarrow> Inr m | None \<Rightarrow> Machine_init (msg_machine_id message)) = ?mm"
      using assms by (simp add: same_stores_def)
    show ?thesis
    proof (cases ?mm)
      case e: (Inl e)
      with Some Inr mm assms show ?thesis by (simp add: process_single_message_def)
    next
      case m: (Inr machine)
      have "snd (process_machine_update (cleaning_service s1) machine message (yards s1)) =
            snd (process_machine_update (cleaning_service s2) machine message (yards s2))"
        using assms process_machine_update_stores by (simp add: same_stores_def)
      with Some Inr mm m assms show ?thesis
        by (simp add: process_single_message_def same_stores_def case_prod_beta Let_def
              split: option.splits)
    qed
  qed
qed

lemma process_messages_loop_stores:
  "same_stores s1 s2 \<Longrightarrow>
     same_stores (process_messages_loop s1 msgs) (process_messages_loop s2 msgs)"
proof (induction msgs arbitrary: s1 s2)
  case Nil
  then show ?case by simp
next
  case (Cons md msgs)
  from Cons.prems
  have "same_stores (fst (process_single_message s1 md)) (fst (process_single_message s2 md))"
    by (simp add: process_single_message_stores)
  then show ?case by (simp add: Cons.IH)
qed

text \<open>
  Claim C9. Run the batch loop on the same report list from two systems whose stores are
  equal (the same yards, machines and recorded events; in particular two systems with
  fresh stores built from one directory), whatever their counters. The two runs end with
  the same yards, the same machines and the same sequence of recorded events, and return
  the same flag. No order of the reports is needed for this.
\<close>

theorem batch_deterministic:
  assumes "yards s1 = yards s2" and "machines s1 = machines s2"
    and "status_changes s1 = status_changes s2"
  shows "yards (fst (process_messages_batch s1 msgs)) = yards (fst (process_messages_batch s2 msgs))
       \<and> machines (fst (process_messages_batch s1 msgs)) =
           machines (fst (process_messages_batch s2 msgs))
       \<and> status_changes (fst (process_messages_batch s1 msgs)) =
           status_changes (fst (process_messages_batch s2 msgs))
       \<and> snd (process_messages_batch s1 msgs) = snd (process_messages_batch s2 msgs)"
proof -
  from assms have "same_stores s1 s2" by (simp add: same_stores_def)
  then have "same_stores (process_messages_loop s1 msgs) (process_messages_loop s2 msgs)"
    by (rule process_messages_loop_stores)
  then show ?thesis by (simp add: same_stores_def process_messages_batch_def)
qed

theorem batch_deterministic_witness:
  "status_changes (fst (process_messages_batch
      (CleaningMonitoringSystem_init
        \<lparr>yards := [(1::int) \<mapsto> \<lparr>yard_id = 1, area = 100, cleaning_speed = 1,
                     status = PERCENT_0, cleaned_area = 0, total_work_time = 0,
                     status_history = [PERCENT_0]\<rparr>]\<rparr>)
      [\<lparr>data_machine_id = 1, data_timestamp = Some (Naive 0), data_x = 3, data_y = 4,
          data_yard_id = Some 1\<rparr>,
         \<lparr>data_machine_id = 1, data_timestamp = Some (Naive 120), data_x = 5, data_y = 6,
          data_yard_id = None\<rparr>])) =
   status_changes (fst (process_messages_batch
      (CleaningMonitoringSystem_init
        \<lparr>yards := [(1::int) \<mapsto> \<lparr>yard_id = 1, area = 100, cleaning_speed = 1,
                     status = PERCENT_0, cleaned_area = 0, total_work_time = 0,
                     status_history = [PERCENT_0]\<rparr>],
         cleaning_service := \<lparr>message_count = 7, error_count = 2\<rparr>,
         processed_messages := 7\<rparr>)
      [\<lparr>data_machine_id = 1, data_timestamp = Some (Naive 0), data_x = 3, data_y = 4,
          data_yard_id = Some 1\<rparr>,
         \<lparr>data_machine_id = 1, data_timestamp = Some (Naive 120), data_x = 5, data_y = 6,
          data_yard_id = None\<rparr>]))
   \<and> yards (fst (process_messages_batch
      (CleaningMonitoringSystem_init
        \<lparr>yards := [(1::int) \<mapsto> \<lparr>yard_id = 1, area = 100, cleaning_speed = 1,
                     status = PERCENT_0, cleaned_area = 0, total_work_time = 0,
                     status_history = [PERCENT_0]\<rparr>]\<rparr>)
      [\<lparr>data_machine_id = 1, data_timestamp = Some (Naive 0), data_x = 3, data_y = 4,
          data_yard_id = Some 1\<rparr>,
         \<lparr>data_machine_id = 1, data_timestamp = Some (Naive 120), data_x = 5, data_y = 6,
          data_yard_id = None\<rparr>])) =
   yards (fst (process_messages_batch
      (CleaningMonitoringSystem_init
        \<lparr>yards := [(1::int) \<mapsto> \<lparr>yard_id = 1, area = 100, cleaning_speed = 1,
                     status = PERCENT_0, cleaned_area = 0, total_work_time = 0,
                     status_history = [PERCENT_0]\<rparr>],
         cleaning_service := \<lparr>message_count = 7, error_count = 2\<rparr>,
         processed_messages := 7\<rparr>)
      [\<lparr>data_machine_id = 1, data_timestamp = Some (Naive 0), data_x = 3, data_y = 4,
          data_yard_id = Some 1\<rparr>,
         \<lparr>data_machine_id = 1, data_timestamp = Some (Naive 120), data_x = 5, data_y = 6,
          data_yard_id = None\<rparr>]))"
proof -
  let ?s1 = "CleaningMonitoringSystem_init
        \<lparr>yards := [(1::int) \<mapsto> \<lparr>yard_id = 1, area = 100, cleaning_speed = 1,
                     status = PERCENT_0, cleaned_area = 0, total_work_time = 0,
                     status_history = [PERCENT_0]\<rparr>]\<rparr>"
  let ?s2 = "CleaningMonitoringSystem_init
        \<lparr>yards := [(1::int) \<mapsto> \<lparr>yard_id = 1, area = 100, cleaning_speed = 1,
                     status = PERCENT_0, cleaned_area = 0, total_work_time = 0,
                     status_history = [PERCENT_0]\<rparr>],
         cleaning_service := \<lparr>message_count = 7, error_count = 2\<rparr>,
         processed_messages := 7\<rparr>"
  have h: "yards ?s1 = yards ?s2" "machines ?s1 = machines ?s2"
    "status_changes ?s1 = status_changes ?s2"
    by (simp_all add: CleaningMonitoringSystem_init_def)
  from batch_deterministic [OF h] show ?thesis by blast
qed

end
